theory Spec2Isabelle
  imports Complex_Main "HOL-Library.AList"
begin

section \<open>JavaScript values\<close>

text \<open>
  Tool arguments and the serialised tool list are JSON trees: the arguments come out of
  \<^verbatim>\<open>JSON.parse\<close>, the tool list is built from strings and booleans. An object keeps its keys
  in insertion order, so it is an association list.
\<close>

datatype json =
    JNull
  | JBool bool
  | JNum rat
  | JStr string
  | JArr "json list"
  | JObj "(string \<times> json) list"

text \<open>
  The result of an executor is a \<^verbatim>\<open>Record<string, unknown>\<close>: a JSON tree, or any other object
  (one that holds a \<^verbatim>\<open>BigInt\<close>, a cycle, a \<^verbatim>\<open>toJSON\<close> method), which is \<open>Foreign\<close> with a
  reference. \<^verbatim>\<open>JSON.stringify\<close> returns a string on a tree and may throw on the others.
\<close>

datatype "value" = Data json | Foreign nat

text \<open>
  A JavaScript number: \<^verbatim>\<open>maxToolCalls\<close>, \<^verbatim>\<open>temperature\<close> and \<^verbatim>\<open>maxTokens\<close> are declared
  \<^verbatim>\<open>number\<close> and are not converted or checked. A finite number is the rational it stands for.
\<close>

datatype number = Finite rat | PosInfinity | NegInfinity | NaN

text \<open>\<^verbatim>\<open>a < b\<close> and \<^verbatim>\<open>a <= b\<close>: both false when either side is \<^verbatim>\<open>NaN\<close>.\<close>

fun js_less :: "number \<Rightarrow> number \<Rightarrow> bool" where
  "js_less NaN b = False"
| "js_less a NaN = False"
| "js_less (Finite x) (Finite y) = (x < y)"
| "js_less (Finite x) PosInfinity = True"
| "js_less (Finite x) NegInfinity = False"
| "js_less PosInfinity b = False"
| "js_less NegInfinity NegInfinity = False"
| "js_less NegInfinity b = True"

fun js_less_eq :: "number \<Rightarrow> number \<Rightarrow> bool" where
  "js_less_eq NaN b = False"
| "js_less_eq a NaN = False"
| "js_less_eq (Finite x) (Finite y) = (x \<le> y)"
| "js_less_eq (Finite x) PosInfinity = True"
| "js_less_eq (Finite x) NegInfinity = False"
| "js_less_eq PosInfinity PosInfinity = True"
| "js_less_eq PosInfinity b = False"
| "js_less_eq NegInfinity b = True"

text \<open>
  \<^verbatim>\<open>n - 1\<close>. On the doubles from \<open>1 / 2\<close> to \<open>2 ^ 53\<close> the subtraction is exact. Elsewhere the
  double is the rounding of the rational below, and both compare in the same way with a loop
  counter below \<open>2 ^ 53\<close>.
\<close>

fun minus_one :: "number \<Rightarrow> number" where
  "minus_one (Finite x) = Finite (x - 1)"
| "minus_one n = n"

text \<open>A number as \<^verbatim>\<open>JSON.stringify\<close> sees it inside an object: \<^verbatim>\<open>null\<close> unless finite.\<close>

fun number_json :: "number \<Rightarrow> json" where
  "number_json (Finite x) = JNum x"
| "number_json n = JNull"

text \<open>JavaScript truthiness, as used by \<^verbatim>\<open>if (x)\<close>, \<^verbatim>\<open>!x\<close> and \<^verbatim>\<open>x || y\<close>.\<close>

fun truthy :: "json \<Rightarrow> bool" where
  "truthy JNull = False"
| "truthy (JBool b) = b"
| "truthy (JNum n) = (n \<noteq> 0)"
| "truthy (JStr s) = (s \<noteq> [])"
| "truthy (JArr xs) = True"
| "truthy (JObj kvs) = True"

text \<open>
  A thrown value: an instance of \<^verbatim>\<open>Error\<close> with its message, or any other value.
  \<^verbatim>\<open>executeTool\<close> distinguishes the two with \<^verbatim>\<open>error instanceof Error\<close>.
\<close>

datatype thrown = Error (message: string) | Thrown json

section \<open>Types of ToolCallingTypes.ts\<close>

datatype ParameterType = Type_string | Type_number | Type_boolean | Type_object | Type_array

fun ParameterType_text :: "ParameterType \<Rightarrow> string" where
  "ParameterType_text Type_string = ''string''"
| "ParameterType_text Type_number = ''number''"
| "ParameterType_text Type_boolean = ''boolean''"
| "ParameterType_text Type_object = ''object''"
| "ParameterType_text Type_array = ''array''"

record ToolParameter =
  name :: string
  type' :: ParameterType
  description :: string
  required :: bool
  defaultValue :: "json option"
  enum' :: "string list option"

record ToolDefinition =
  name :: string
  description :: string
  parameters :: "ToolParameter list"
  category :: "string option"

record ToolCall =
  toolName :: string
  arguments :: json
  callId :: "string option"

record ToolResult =
  toolName :: string
  success :: bool
  result :: "value option"
  error :: "string option"
  callId :: "string option"

text \<open>
  An executor is user code: it receives the arguments, acts on the outside world \<open>'w\<close>
  and resolves to a result or rejects with a thrown value.
\<close>

type_synonym 'w ToolExecutor = "json \<Rightarrow> 'w \<Rightarrow> (thrown + value) \<times> 'w"

record 'w RegisteredTool =
  definition' :: ToolDefinition
  executor :: "'w ToolExecutor"

text \<open>
  \<^verbatim>\<open>ToolCallingOptions\<close>: every field is optional. The source reads the options only
  through \<^verbatim>\<open>options?.field\<close>, so an absent options object is the record with every
  field \<open>None\<close>.
\<close>

record ToolCallingOptions =
  tools :: "ToolDefinition list option"
  maxToolCalls :: "number option"
  autoExecute :: "bool option"
  temperature :: "number option"
  maxTokens :: "number option"
  systemPrompt :: "string option"
  replaceSystemPrompt :: "bool option"
  keepToolsAvailable :: "bool option"
  format :: "string option"

text \<open>The fields \<^verbatim>\<open>text\<close>, \<^verbatim>\<open>type\<close>, \<^verbatim>\<open>enum\<close> and \<^verbatim>\<open>definition\<close> carry a prime.\<close>

record ToolCallingResult =
  text' :: string
  toolCalls :: "ToolCall list"
  toolResults :: "ToolResult list"
  isComplete :: bool
  conversationId :: "string option"

section \<open>The native module and the JavaScript runtime\<close>

text \<open>
  The object that \<^verbatim>\<open>JSON.parse\<close> returns for the string produced by
  \<^verbatim>\<open>ToolCallingBridge::parseToolCall\<close>: \<^verbatim>\<open>hasToolCall\<close>, \<^verbatim>\<open>cleanText\<close>, and, when a call
  was found, \<^verbatim>\<open>toolName\<close>, \<^verbatim>\<open>argumentsJson\<close> and \<^verbatim>\<open>callId\<close>. A field that the source
  guards with \<^verbatim>\<open>||\<close> or \<^verbatim>\<open>if\<close> may be absent (\<open>None\<close>).
\<close>

record parse_result =
  hasToolCall :: bool
  cleanText :: "string option"
  toolName :: string
  argumentsJson :: "json option"
  callId :: "int option"

record generation_options =
  maxTokens :: "number option"
  temperature :: "number option"

text \<open>
  What the module imports and does not define: the native module (\<^verbatim>\<open>requireNativeModule()\<close>),
  \<^verbatim>\<open>generateStream\<close>, and the builtins \<^verbatim>\<open>JSON.parse\<close>, \<^verbatim>\<open>JSON.stringify\<close>, \<^verbatim>\<open>Date.now\<close>,
  \<^verbatim>\<open>String\<close>, \<^verbatim>\<open>toLowerCase\<close> and the conversion of a number inside a template literal.
  They are parameters. A call that may reject returns \<open>Inl\<close> of the thrown value; a
  call that acts on the outside world returns the new world. \<^verbatim>\<open>generateStream\<close> returns
  the tokens of its stream; \<open>Inl\<close> stands for a rejection of the call or of the stream.
  A native call stands for \<^verbatim>\<open>requireNativeModule()\<close> followed by the method, both inside the
  same \<^verbatim>\<open>try\<close>. \<^verbatim>\<open>JSON.parse\<close> is read at two types: at the parse result of the bridge and at
  tool arguments. \<^verbatim>\<open>JSON.stringify\<close> is a function of its argument: total on a JSON tree,
  and on a foreign object a string or a thrown value. Every call settles: a promise that
  stays pending is not modelled.
\<close>

record 'w env =
  isNativeModuleAvailable :: "'w \<Rightarrow> bool"
  native_parseToolCallFromOutput :: "string \<Rightarrow> 'w \<Rightarrow> (thrown + string) \<times> 'w"
  native_formatToolsForPrompt :: "string \<Rightarrow> string \<Rightarrow> 'w \<Rightarrow> (thrown + string) \<times> 'w"
  native_buildInitialPrompt :: "string \<Rightarrow> string \<Rightarrow> string \<Rightarrow> 'w \<Rightarrow> (thrown + string) \<times> 'w"
  native_buildFollowupPrompt ::
    "string \<Rightarrow> string \<Rightarrow> string \<Rightarrow> string \<Rightarrow> bool \<Rightarrow> 'w \<Rightarrow> (thrown + string) \<times> 'w"
  generateStream :: "string \<Rightarrow> generation_options \<Rightarrow> 'w \<Rightarrow> (thrown + string list) \<times> 'w"
  JSON_parse :: "string \<Rightarrow> thrown + json"
  JSON_parse_result :: "string \<Rightarrow> thrown + parse_result"
  JSON_stringify :: "json \<Rightarrow> string"
  JSON_stringify_foreign :: "nat \<Rightarrow> thrown + string"
  Date_now :: "'w \<Rightarrow> int"
  Number_toString :: "int \<Rightarrow> string"
  String :: "json \<Rightarrow> string"
  toLowerCase :: "string \<Rightarrow> string"

section \<open>Effects: the outside world, a trace, exceptions\<close>

text \<open>
  The trace records the calls that leave the module: one \<open>Generated\<close> per invocation of
  \<^verbatim>\<open>generateStream\<close> (with the prompt), one \<open>Parsed\<close> per result of the parse step inside
  the orchestration loop (clean text and call), one \<open>Executed\<close> per invocation of a
  registered executor (tool name, arguments, and what the executor resolved to or threw),
  one \<open>FollowedUp\<close> per follow-up prompt built (tool name and serialised result).
\<close>

datatype event =
    Generated string
  | Parsed string "ToolCall option"
  | Executed string json "thrown + value"
  | FollowedUp string string

record 'w sys =
  world :: 'w
  trace :: "event list"

type_synonym ('a, 'w) action = "'w sys \<Rightarrow> (thrown + 'a) \<times> 'w sys"

definition ret :: "'a \<Rightarrow> ('a, 'w) action" where
  "ret x = (\<lambda>s. (Inr x, s))"

text \<open>\<^verbatim>\<open>const x = await m; f(x)\<close>: a rejection of \<open>m\<close> propagates.\<close>

definition bind :: "('a, 'w) action \<Rightarrow> ('a \<Rightarrow> ('b, 'w) action) \<Rightarrow> ('b, 'w) action" where
  "bind m f = (\<lambda>s. case m s of (Inl e, s') \<Rightarrow> (Inl e, s') | (Inr x, s') \<Rightarrow> f x s')"

text \<open>\<^verbatim>\<open>try { m } catch (error) { h(error) }\<close>\<close>

definition try_catch :: "('a, 'w) action \<Rightarrow> (thrown \<Rightarrow> ('a, 'w) action) \<Rightarrow> ('a, 'w) action" where
  "try_catch m h = (\<lambda>s. case m s of (Inl e, s') \<Rightarrow> h e s' | (Inr x, s') \<Rightarrow> (Inr x, s'))"

definition lift :: "thrown + 'a \<Rightarrow> ('a, 'w) action" where
  "lift r = (\<lambda>s. (r, s))"

definition observe :: "('w \<Rightarrow> 'a) \<Rightarrow> ('a, 'w) action" where
  "observe f = (\<lambda>s. (Inr (f (world s)), s))"

definition extern :: "('w \<Rightarrow> (thrown + 'a) \<times> 'w) \<Rightarrow> ('a, 'w) action" where
  "extern f = (\<lambda>s. case f (world s) of (r, w') \<Rightarrow> (r, s\<lparr>world := w'\<rparr>))"

definition emit :: "event \<Rightarrow> (unit, 'w) action" where
  "emit ev = (\<lambda>s. (Inr (), s\<lparr>trace := trace s @ [ev]\<rparr>))"

section \<open>Tool registration\<close>

text \<open>
  \<^verbatim>\<open>registeredTools\<close> is a \<^verbatim>\<open>Map<string, RegisteredTool>\<close>: it keeps insertion order, and
  \<^verbatim>\<open>set\<close> on a present key replaces the value in place. The functions below return the
  new registry. A run reads the registry it is given: executors act on the outside world
  and do not register or unregister tools while a run is in progress.
\<close>

type_synonym 'w registry = "(string \<times> 'w RegisteredTool) list"

definition registerTool :: "ToolDefinition \<Rightarrow> 'w ToolExecutor \<Rightarrow> 'w registry \<Rightarrow> 'w registry" where
  "registerTool d ex registeredTools =
     AList.update (ToolDefinition.name d) \<lparr>definition' = d, executor = ex\<rparr> registeredTools"

definition unregisterTool :: "string \<Rightarrow> 'w registry \<Rightarrow> 'w registry" where
  "unregisterTool n registeredTools = AList.delete n registeredTools"

definition getRegisteredTools :: "'w registry \<Rightarrow> ToolDefinition list" where
  "getRegisteredTools registeredTools = map (\<lambda>t. definition' (snd t)) registeredTools"

definition clearTools :: "'w registry \<Rightarrow> 'w registry" where
  "clearTools registeredTools = []"

section \<open>Parsing through the native module\<close>

text \<open>\<^verbatim>\<open>s || d\<close> for an optional string \<open>s\<close>: absent and empty are both falsy.\<close>

fun or_else :: "string option \<Rightarrow> string \<Rightarrow> string" where
  "or_else None d = d"
| "or_else (Some s) d = (if s = [] then d else s)"

text \<open>
  The arguments of a found call: \<^verbatim>\<open>{}\<close> unless \<^verbatim>\<open>result.argumentsJson\<close> is truthy; a string
  goes through \<^verbatim>\<open>JSON.parse\<close>, which may throw; any other value is used as it is.
\<close>

definition parse_arguments :: "'w env \<Rightarrow> json option \<Rightarrow> thrown + json" where
  "parse_arguments env a =
     (case a of
        None \<Rightarrow> Inr (JObj [])
      | Some v \<Rightarrow>
          if truthy v then (case v of JStr s \<Rightarrow> JSON_parse env s | _ \<Rightarrow> Inr v)
          else Inr (JObj []))"

text \<open>\<^verbatim>\<open>`call_${result.callId || Date.now()}`\<close>\<close>

definition make_callId :: "'w env \<Rightarrow> int option \<Rightarrow> 'w \<Rightarrow> string" where
  "make_callId env c w =
     ''call_'' @ Number_toString env
       (case c of None \<Rightarrow> Date_now env w | Some n \<Rightarrow> if n = 0 then Date_now env w else n)"

text \<open>The body of the \<^verbatim>\<open>try\<close> block of \<^verbatim>\<open>parseToolCallViaCpp\<close>.\<close>

definition parseToolCall_try :: "'w env \<Rightarrow> string \<Rightarrow> (string \<times> ToolCall option, 'w) action" where
  "parseToolCall_try env llmOutput =
     bind (extern (native_parseToolCallFromOutput env llmOutput)) (\<lambda>resultJson.
     bind (lift (JSON_parse_result env resultJson)) (\<lambda>result.
       if \<not> hasToolCall result then ret (or_else (cleanText result) llmOutput, None)
       else
         bind (lift (parse_arguments env (argumentsJson result))) (\<lambda>args.
         bind (observe (make_callId env (parse_result.callId result))) (\<lambda>cid.
           ret (or_else (cleanText result) [],
                Some \<lparr>ToolCall.toolName = parse_result.toolName result,
                      arguments = args,
                      ToolCall.callId = Some cid\<rparr>)))))"

definition parseToolCallViaCpp :: "'w env \<Rightarrow> string \<Rightarrow> (string \<times> ToolCall option, 'w) action" where
  "parseToolCallViaCpp env llmOutput =
     bind (observe (isNativeModuleAvailable env)) (\<lambda>available.
       if \<not> available then ret (llmOutput, None)
       else try_catch (parseToolCall_try env llmOutput) (\<lambda>error. ret (llmOutput, None)))"

section \<open>The bridge to the native parser\<close>

text \<open>
  \<^verbatim>\<open>ToolCallingBridge::parseToolCall\<close> wraps \<^verbatim>\<open>rac_tool_call_parse\<close>, which \<^verbatim>\<open>rac_tool_calling.h\<close>
  only declares: the parser and \<^verbatim>\<open>nlohmann::json::parse\<close> are parameters. A \<^verbatim>\<open>char*\<close> that may be
  null is an option. The bridge returns the dump of the object built here; the keys it does
  not set are the absent fields of the parse result (its \<^verbatim>\<open>toolName\<close> is then never read).
\<close>

datatype rac_result = RAC_SUCCESS | RAC_ERROR int

record rac_tool_call =
  has_tool_call :: bool
  tool_name :: "string option"
  arguments_json :: "string option"
  clean_text :: "string option"
  call_id :: int

definition ToolCallingBridge_parseToolCall ::
  "(string \<Rightarrow> rac_result \<times> rac_tool_call) \<Rightarrow> (string \<Rightarrow> json option) \<Rightarrow> string \<Rightarrow> parse_result" where
  "ToolCallingBridge_parseToolCall rac_tool_call_parse json_parse llmOutput =
     (case rac_tool_call_parse llmOutput of
        (RAC_ERROR rc, r) \<Rightarrow>
          \<lparr>hasToolCall = False, cleanText = Some llmOutput, toolName = [],
           argumentsJson = None, callId = None\<rparr>
      | (RAC_SUCCESS, r) \<Rightarrow>
          if has_tool_call r then
            \<lparr>hasToolCall = True,
             cleanText = Some (case clean_text r of None \<Rightarrow> llmOutput | Some t \<Rightarrow> t),
             toolName = (case tool_name r of None \<Rightarrow> [] | Some n \<Rightarrow> n),
             argumentsJson =
               Some (case arguments_json r of
                       None \<Rightarrow> JObj []
                     | Some a \<Rightarrow> (case json_parse a of None \<Rightarrow> JObj [] | Some j \<Rightarrow> j)),
             callId = Some (call_id r)\<rparr>
          else
            \<lparr>hasToolCall = False,
             cleanText = Some (case clean_text r of None \<Rightarrow> llmOutput | Some t \<Rightarrow> t),
             toolName = [], argumentsJson = None, callId = None\<rparr>)"

section \<open>Formatting the tool list\<close>

text \<open>
  The tool list as the source serialises it (the same expression in
  \<^verbatim>\<open>formatToolsForPrompt\<close>, \<^verbatim>\<open>formatToolsForPromptAsync\<close> and \<^verbatim>\<open>generateWithTools\<close>), before
  \<^verbatim>\<open>JSON.stringify\<close>. An \<^verbatim>\<open>enum\<close> that is present, even empty, is truthy.
\<close>

definition parameter_object :: "ToolParameter \<Rightarrow> json" where
  "parameter_object p =
     JObj ([(''name'', JStr (ToolParameter.name p)),
            (''type'', JStr (ParameterType_text (type' p))),
            (''description'', JStr (ToolParameter.description p)),
            (''required'', JBool (required p))]
           @ (case enum' p of None \<Rightarrow> [] | Some vs \<Rightarrow> [(''enumValues'', JArr (map JStr vs))]))"

definition tool_object :: "ToolDefinition \<Rightarrow> json" where
  "tool_object tool =
     JObj [(''name'', JStr (ToolDefinition.name tool)),
           (''description'', JStr (ToolDefinition.description tool)),
           (''parameters'', JArr (map parameter_object (parameters tool)))]"

definition serialize_tools :: "'w env \<Rightarrow> ToolDefinition list \<Rightarrow> string" where
  "serialize_tools env ts = JSON_stringify env (JArr (map tool_object ts))"

text \<open>\<^verbatim>\<open>tools || getRegisteredTools()\<close>: an array, even empty, is truthy.\<close>

definition toolsToFormat :: "'w registry \<Rightarrow> ToolDefinition list option \<Rightarrow> ToolDefinition list" where
  "toolsToFormat registeredTools ts =
     (case ts of None \<Rightarrow> getRegisteredTools registeredTools | Some l \<Rightarrow> l)"

text \<open>\<^verbatim>\<open>format?.toLowerCase() || 'default'\<close>\<close>

definition toolFormat :: "'w env \<Rightarrow> string option \<Rightarrow> string" where
  "toolFormat env fmt =
     (case fmt of None \<Rightarrow> ''default'' | Some f \<Rightarrow> or_else (Some (toLowerCase env f)) ''default'')"

definition formatToolsForPrompt ::
  "'w env \<Rightarrow> 'w registry \<Rightarrow> ToolDefinition list option \<Rightarrow> string option \<Rightarrow> string" where
  "formatToolsForPrompt env registeredTools ts fmt =
     (if length (toolsToFormat registeredTools ts) = 0 then []
      else serialize_tools env (toolsToFormat registeredTools ts))"

definition formatToolsForPromptAsync ::
  "'w env \<Rightarrow> 'w registry \<Rightarrow> ToolDefinition list option \<Rightarrow> string option \<Rightarrow> (string, 'w) action" where
  "formatToolsForPromptAsync env registeredTools ts fmt =
     (if length (toolsToFormat registeredTools ts) = 0 then ret []
      else
        let toolsJson = serialize_tools env (toolsToFormat registeredTools ts) in
        bind (observe (isNativeModuleAvailable env)) (\<lambda>available.
          if \<not> available then ret toolsJson
          else try_catch (extern (native_formatToolsForPrompt env toolsJson (toolFormat env fmt)))
                 (\<lambda>error. ret toolsJson)))"

section \<open>Tool execution\<close>

text \<open>\<^verbatim>\<open>error instanceof Error ? error.message : String(error)\<close>\<close>

fun errorMessage :: "'w env \<Rightarrow> thrown \<Rightarrow> string" where
  "errorMessage env (Error m) = m"
| "errorMessage env (Thrown v) = String env v"

text \<open>\<^verbatim>\<open>await tool.executor(toolCall.arguments)\<close>, recorded in the trace.\<close>

definition invoke_executor :: "'w RegisteredTool \<Rightarrow> ToolCall \<Rightarrow> (value, 'w) action" where
  "invoke_executor tool toolCall =
     (\<lambda>s. case executor tool (arguments toolCall) (world s) of
            (r, w') \<Rightarrow>
              (r, s\<lparr>world := w',
                     trace := trace s
                       @ [Executed (ToolCall.toolName toolCall) (arguments toolCall) r]\<rparr>))"

definition executeTool :: "'w env \<Rightarrow> 'w registry \<Rightarrow> ToolCall \<Rightarrow> (ToolResult, 'w) action" where
  "executeTool env registeredTools toolCall =
     (case map_of registeredTools (ToolCall.toolName toolCall) of
        None \<Rightarrow>
          ret \<lparr>ToolResult.toolName = ToolCall.toolName toolCall,
               success = False,
               result = None,
               error = Some (''Unknown tool: '' @ ToolCall.toolName toolCall),
               ToolResult.callId = ToolCall.callId toolCall\<rparr>
      | Some tool \<Rightarrow>
          try_catch
            (bind (invoke_executor tool toolCall) (\<lambda>r.
               ret \<lparr>ToolResult.toolName = ToolCall.toolName toolCall,
                    success = True,
                    result = Some r,
                    error = None,
                    ToolResult.callId = ToolCall.callId toolCall\<rparr>))
            (\<lambda>e.
               ret \<lparr>ToolResult.toolName = ToolCall.toolName toolCall,
                    success = False,
                    result = None,
                    error = Some (errorMessage env e),
                    ToolResult.callId = ToolCall.callId toolCall\<rparr>))"

section \<open>Building prompts\<close>

definition newlines :: string where
  "newlines = [CHR 0x0A, CHR 0x0A]"

text \<open>\<^verbatim>\<open>options?.field ?? default\<close>, as read by \<^verbatim>\<open>generateWithTools\<close> and the prompt builder.\<close>

definition maxToolCalls_or_default :: "ToolCallingOptions \<Rightarrow> number" where
  "maxToolCalls_or_default options =
     (case maxToolCalls options of None \<Rightarrow> Finite 5 | Some n \<Rightarrow> n)"

definition autoExecute_or_default :: "ToolCallingOptions \<Rightarrow> bool" where
  "autoExecute_or_default options = (case autoExecute options of None \<Rightarrow> True | Some b \<Rightarrow> b)"

definition keepToolsAvailable_or_default :: "ToolCallingOptions \<Rightarrow> bool" where
  "keepToolsAvailable_or_default options =
     (case keepToolsAvailable options of None \<Rightarrow> False | Some b \<Rightarrow> b)"

text \<open>
  The object that \<^verbatim>\<open>buildInitialPromptViaCpp\<close> passes to \<^verbatim>\<open>JSON.stringify\<close>. A
  \<^verbatim>\<open>systemPrompt\<close> that is undefined is left out by \<^verbatim>\<open>JSON.stringify\<close>; a number that is
  not finite becomes \<^verbatim>\<open>null\<close>.
\<close>

definition options_object :: "ToolCallingOptions \<Rightarrow> json" where
  "options_object options =
     JObj ([(''maxToolCalls'', number_json (maxToolCalls_or_default options)),
            (''autoExecute'', JBool (autoExecute_or_default options)),
            (''temperature'',
               number_json (case ToolCallingOptions.temperature options of
                              None \<Rightarrow> Finite (7 / 10) | Some t \<Rightarrow> t)),
            (''maxTokens'',
               number_json (case ToolCallingOptions.maxTokens options of
                              None \<Rightarrow> Finite 1024 | Some n \<Rightarrow> n)),
            (''format'', JStr (case format options of None \<Rightarrow> ''default'' | Some f \<Rightarrow> f)),
            (''replaceSystemPrompt'',
               JBool (case replaceSystemPrompt options of None \<Rightarrow> False | Some b \<Rightarrow> b)),
            (''keepToolsAvailable'', JBool (keepToolsAvailable_or_default options))]
           @ (case systemPrompt options of None \<Rightarrow> [] | Some p \<Rightarrow> [(''systemPrompt'', JStr p)]))"

definition buildInitialPromptViaCpp ::
  "'w env \<Rightarrow> string \<Rightarrow> string \<Rightarrow> ToolCallingOptions \<Rightarrow> (string, 'w) action" where
  "buildInitialPromptViaCpp env userPrompt toolsJson options =
     bind (observe (isNativeModuleAvailable env)) (\<lambda>available.
       if \<not> available then ret (toolsJson @ newlines @ ''User: '' @ userPrompt)
       else
         try_catch
           (extern (native_buildInitialPrompt env userPrompt toolsJson
                      (JSON_stringify env (options_object options))))
           (\<lambda>error. ret (toolsJson @ newlines @ ''User: '' @ userPrompt)))"

definition buildFollowupPromptViaCpp ::
  "'w env \<Rightarrow> string \<Rightarrow> string \<Rightarrow> string \<Rightarrow> string \<Rightarrow> bool \<Rightarrow> (string, 'w) action" where
  "buildFollowupPromptViaCpp env originalPrompt toolsPrompt tn resultJson keep =
     bind (observe (isNativeModuleAvailable env)) (\<lambda>available.
       if \<not> available then
         (if keep then
            ret (toolsPrompt @ newlines @ ''User: '' @ originalPrompt @ newlines
                 @ ''Tool '' @ tn @ '' returned: '' @ resultJson)
          else
            ret (''The user asked: '' @ [CHR 0x22] @ originalPrompt @ [CHR 0x22] @ newlines
                 @ ''You used '' @ tn @ '' and got: '' @ resultJson @ newlines
                 @ ''Respond naturally.''))
       else
         try_catch
           (extern (native_buildFollowupPrompt env originalPrompt toolsPrompt tn resultJson keep))
           (\<lambda>error.
              ret (''The user asked: '' @ [CHR 0x22] @ originalPrompt @ [CHR 0x22] @ newlines
                   @ ''You used '' @ tn @ '' and got: '' @ resultJson)))"

section \<open>The orchestration loop\<close>

text \<open>The variables that the loop of \<^verbatim>\<open>generateWithTools\<close> updates.\<close>

record loop_state =
  fullPrompt :: string
  allToolCalls :: "ToolCall list"
  allToolResults :: "ToolResult list"
  finalText :: string

text \<open>
  How one pass through the loop body ends: at its end (\<open>Continue\<close>), at \<^verbatim>\<open>break\<close>, or at
  the \<^verbatim>\<open>return\<close> for manual execution.
\<close>

datatype outcome = Continue loop_state | Break loop_state | Return ToolCallingResult

text \<open>
  \<^verbatim>\<open>JSON.stringify\<close> of a result: a string on a tree, a string or a throw on a foreign object;
  undefined stays undefined, which a template literal prints as \<^verbatim>\<open>undefined\<close>.
\<close>

definition stringify_value :: "'w env \<Rightarrow> value \<Rightarrow> thrown + string" where
  "stringify_value env v =
     (case v of Data j \<Rightarrow> Inr (JSON_stringify env j) | Foreign x \<Rightarrow> JSON_stringify_foreign env x)"

definition stringify_optional :: "'w env \<Rightarrow> value option \<Rightarrow> thrown + string" where
  "stringify_optional env v =
     (case v of None \<Rightarrow> Inr ''undefined'' | Some x \<Rightarrow> stringify_value env x)"

text \<open>
  \<^verbatim>\<open>result.success ? result.result : { error: result.error }\<close>. \<^verbatim>\<open>JSON.stringify\<close> leaves out an
  undefined \<^verbatim>\<open>error\<close>; \<^verbatim>\<open>executeTool\<close> sets \<^verbatim>\<open>result\<close> on every success and \<^verbatim>\<open>error\<close> on every
  failure.
\<close>

definition resultData :: "ToolResult \<Rightarrow> value option" where
  "resultData r =
     (if success r then result r
      else Some (Data (JObj (case error r of None \<Rightarrow> [] | Some e \<Rightarrow> [(''error'', JStr e)]))))"

text \<open>
  The loop body after \<^verbatim>\<open>iterations++\<close>. \<open>toolsPrompt\<close> is the constant computed before the loop.
  Of the \<^verbatim>\<open>logger.debug\<close> calls only one can change the result: after a successful execution
  it evaluates \<^verbatim>\<open>JSON.stringify(result.result)\<close>, outside any \<^verbatim>\<open>try\<close>. That is the same call, on
  the same value, as the \<^verbatim>\<open>JSON.stringify(resultData)\<close> that follows, so the body serialises
  once, after the execution and before the follow-up prompt, and a throw leaves
  \<^verbatim>\<open>generateWithTools\<close>. The other debug lines serialise JSON trees and read strings.
\<close>

definition iteration ::
  "'w env \<Rightarrow> 'w registry \<Rightarrow> string \<Rightarrow> ToolCallingOptions \<Rightarrow> string \<Rightarrow> loop_state
     \<Rightarrow> (outcome, 'w) action" where
  "iteration env registeredTools prompt options toolsPrompt st =
     bind (emit (Generated (fullPrompt st))) (\<lambda>_.
     bind (extern (generateStream env (fullPrompt st)
                     \<lparr>generation_options.maxTokens = ToolCallingOptions.maxTokens options,
                      generation_options.temperature = ToolCallingOptions.temperature options\<rparr>))
       (\<lambda>tokens.
     bind (parseToolCallViaCpp env (concat tokens)) (\<lambda>parsed.
     bind (emit (Parsed (fst parsed) (snd parsed))) (\<lambda>_.
       case snd parsed of
         None \<Rightarrow> ret (Break (st\<lparr>finalText := fst parsed\<rparr>))
       | Some toolCall \<Rightarrow>
           if \<not> autoExecute_or_default options then
             ret (Return \<lparr>text' = fst parsed,
                          toolCalls = allToolCalls st @ [toolCall],
                          toolResults = [],
                          isComplete = False,
                          conversationId = None\<rparr>)
           else
             bind (executeTool env registeredTools toolCall) (\<lambda>r.
             bind (lift (stringify_optional env (resultData r))) (\<lambda>resultJson.
             bind (emit (FollowedUp (ToolCall.toolName toolCall) resultJson)) (\<lambda>_.
             bind (buildFollowupPromptViaCpp env prompt toolsPrompt (ToolCall.toolName toolCall)
                     resultJson (keepToolsAvailable_or_default options)) (\<lambda>p.
               ret (Continue \<lparr>fullPrompt = p,
                              allToolCalls = allToolCalls st @ [toolCall],
                              allToolResults = allToolResults st @ [r],
                              finalText = fst parsed\<rparr>)))))))))"

text \<open>The \<^verbatim>\<open>return\<close> after the loop.\<close>

definition completed :: "loop_state \<Rightarrow> ToolCallingResult" where
  "completed st =
     \<lparr>text' = finalText st,
      toolCalls = allToolCalls st,
      toolResults = allToolResults st,
      isComplete = True,
      conversationId = None\<rparr>"

text \<open>
  \<^verbatim>\<open>iterations++\<close> on a number that counts up from 0: exact below \<open>2 ^ 53\<close>, where adding 1
  rounds back to \<open>2 ^ 53\<close>.
\<close>

definition increment :: "nat \<Rightarrow> nat" where
  "increment i = (if i < 2 ^ 53 then i + 1 else i)"

text \<open>
  \<^verbatim>\<open>while (iterations < maxToolCalls) { iterations++; ... }\<close> and the final \<^verbatim>\<open>return\<close>. The bound is
  any number, so the loop need not end: a run that does not return is \<open>None\<close>.
\<close>

type_synonym ('a, 'w) partial_action = "'w sys \<Rightarrow> ((thrown + 'a) \<times> 'w sys) option"

partial_function (option) tool_loop ::
  "'w env \<Rightarrow> 'w registry \<Rightarrow> string \<Rightarrow> ToolCallingOptions \<Rightarrow> string \<Rightarrow> nat \<Rightarrow> loop_state
     \<Rightarrow> 'w sys \<Rightarrow> ((thrown + ToolCallingResult) \<times> 'w sys) option" where
  "tool_loop env registeredTools prompt options toolsPrompt iterations st s =
     (if js_less (Finite (of_nat iterations)) (maxToolCalls_or_default options) then
        (case iteration env registeredTools prompt options toolsPrompt st s of
           (Inl e, s') \<Rightarrow> Some (Inl e, s')
         | (Inr out, s') \<Rightarrow>
             (case out of
                Continue st' \<Rightarrow>
                  tool_loop env registeredTools prompt options toolsPrompt (increment iterations)
                    st' s'
              | Break st' \<Rightarrow> Some (Inr (completed st'), s')
              | Return r \<Rightarrow> Some (Inr r, s')))
      else Some (Inr (completed st), s))"

text \<open>What \<^verbatim>\<open>generateWithTools\<close> does before the loop: the first prompt and \<^verbatim>\<open>toolsPrompt\<close>.\<close>

definition prepare ::
  "'w env \<Rightarrow> 'w registry \<Rightarrow> string \<Rightarrow> ToolCallingOptions \<Rightarrow> (string \<times> string, 'w) action" where
  "prepare env registeredTools prompt options =
     (let ts = (case tools options of None \<Rightarrow> getRegisteredTools registeredTools | Some l \<Rightarrow> l);
          fmt = or_else (format options) ''default'';
          toolsJson = serialize_tools env ts
      in
        bind (buildInitialPromptViaCpp env prompt toolsJson options) (\<lambda>p.
        bind (if keepToolsAvailable_or_default options
              then formatToolsForPromptAsync env registeredTools (Some ts) (Some fmt)
              else ret []) (\<lambda>toolsPrompt.
          ret (p, toolsPrompt))))"

definition generateWithTools ::
  "'w env \<Rightarrow> 'w registry \<Rightarrow> string \<Rightarrow> ToolCallingOptions
     \<Rightarrow> (ToolCallingResult, 'w) partial_action" where
  "generateWithTools env registeredTools prompt options s =
     (case prepare env registeredTools prompt options s of
        (Inl e, s') \<Rightarrow> Some (Inl e, s')
      | (Inr (p, toolsPrompt), s') \<Rightarrow>
          tool_loop env registeredTools prompt options toolsPrompt 0
            \<lparr>fullPrompt = p, allToolCalls = [], allToolResults = [], finalText = []\<rparr> s')"

text \<open>
  \<^verbatim>\<open>toolResult.success ? JSON.stringify(toolResult.result) : `Error: ${toolResult.error}`\<close>,
  outside any \<^verbatim>\<open>try\<close>.
\<close>

definition toolResult_json :: "'w env \<Rightarrow> ToolResult \<Rightarrow> thrown + string" where
  "toolResult_json env toolResult =
     (if success toolResult then stringify_optional env (result toolResult)
      else Inr (''Error: '' @ (case error toolResult of None \<Rightarrow> ''undefined'' | Some e \<Rightarrow> e)))"

definition continuedPrompt :: "string \<Rightarrow> ToolCall \<Rightarrow> string \<Rightarrow> string" where
  "continuedPrompt previousPrompt toolCall resultJson =
     previousPrompt @ newlines @ ''Tool Result for '' @ ToolCall.toolName toolCall @ '': ''
     @ resultJson @ newlines @ ''Based on the tool result, please provide your response:''"

definition continueWithToolResult ::
  "'w env \<Rightarrow> 'w registry \<Rightarrow> string \<Rightarrow> ToolCall \<Rightarrow> ToolResult \<Rightarrow> ToolCallingOptions
     \<Rightarrow> (ToolCallingResult, 'w) partial_action" where
  "continueWithToolResult env registeredTools previousPrompt toolCall toolResult options s =
     (case toolResult_json env toolResult of
        Inl e \<Rightarrow> Some (Inl e, s)
      | Inr resultJson \<Rightarrow>
          generateWithTools env registeredTools
            (continuedPrompt previousPrompt toolCall resultJson)
            (options\<lparr>maxToolCalls := Some (minus_one (maxToolCalls_or_default options))\<rparr>) s)"

section \<open>Reading a trace\<close>

fun generated :: "event list \<Rightarrow> string list" where
  "generated [] = []"
| "generated (Generated p # es) = p # generated es"
| "generated (e # es) = generated es"

fun parsed :: "event list \<Rightarrow> (string \<times> ToolCall option) list" where
  "parsed [] = []"
| "parsed (Parsed t c # es) = (t, c) # parsed es"
| "parsed (e # es) = parsed es"

fun executed :: "event list \<Rightarrow> (string \<times> json) list" where
  "executed [] = []"
| "executed (Executed n a r # es) = (n, a) # executed es"
| "executed (e # es) = executed es"

text \<open>The events that a run from \<open>s\<close> to \<open>s'\<close> added to the trace.\<close>

definition new_events :: "'w sys \<Rightarrow> 'w sys \<Rightarrow> event list" where
  "new_events s s' = drop (length (trace s)) (trace s')"

text \<open>What a run returned or threw, and the events it added, when it ended.\<close>

definition returned :: "((thrown + 'a) \<times> 'w sys) option \<Rightarrow> (thrown + 'a) option" where
  "returned y = map_option fst y"

definition events_of :: "'w sys \<Rightarrow> ((thrown + 'a) \<times> 'w sys) option \<Rightarrow> event list option" where
  "events_of s y = map_option (\<lambda>x. new_events s (snd x)) y"

section \<open>The runs of the loop\<close>

text \<open>The result that \<^verbatim>\<open>executeTool\<close> builds for a tool name that is not registered.\<close>

definition unknown_tool_result :: "ToolCall \<Rightarrow> ToolResult" where
  "unknown_tool_result c =
     \<lparr>ToolResult.toolName = ToolCall.toolName c,
      success = False,
      result = None,
      error = Some (''Unknown tool: '' @ ToolCall.toolName c),
      ToolResult.callId = ToolCall.callId c\<rparr>"

text \<open>
  \<open>answers env registeredTools c r evs\<close>: \<open>r\<close> is a result that \<^verbatim>\<open>executeTool\<close> can return
  for the call \<open>c\<close>, and \<open>evs\<close> are the events of that execution: none for an unknown
  tool, otherwise the one invocation of the executor with what it resolved to or threw.
\<close>

definition answers :: "'w env \<Rightarrow> 'w registry \<Rightarrow> ToolCall \<Rightarrow> ToolResult \<Rightarrow> event list \<Rightarrow> bool" where
  "answers env registeredTools c r evs =
     (ToolResult.toolName r = ToolCall.toolName c \<and> ToolResult.callId r = ToolCall.callId c \<and>
      (case map_of registeredTools (ToolCall.toolName c) of
         None \<Rightarrow> evs = [] \<and> r = unknown_tool_result c
       | Some tool \<Rightarrow>
           (\<exists>x. evs = [Executed (ToolCall.toolName c) (arguments c) x] \<and>
                (case x of
                   Inl e \<Rightarrow> \<not> success r \<and> result r = None \<and> error r = Some (errorMessage env e)
                 | Inr v \<Rightarrow> success r \<and> result r = Some v \<and> error r = None))))"

text \<open>
  The state machine that the loop follows, as a relation between the loop variables at
  the loop test, the events of the rest of the run, and what the run returns or throws. It
  holds of the runs that end.
\<close>

inductive run ::
  "'w env \<Rightarrow> 'w registry \<Rightarrow> ToolCallingOptions \<Rightarrow> nat \<Rightarrow> loop_state \<Rightarrow> event list
     \<Rightarrow> thrown + ToolCallingResult \<Rightarrow> bool"
  for env :: "'w env" and registeredTools :: "'w registry" and options :: ToolCallingOptions
  where
    exhausted:
      "\<not> js_less (Finite (of_nat iterations)) (maxToolCalls_or_default options) \<Longrightarrow>
       run env registeredTools options iterations st [] (Inr (completed st))"
  | generation_failed:
      "js_less (Finite (of_nat iterations)) (maxToolCalls_or_default options) \<Longrightarrow>
       run env registeredTools options iterations st [Generated (fullPrompt st)] (Inl e)"
  | answered:
      "js_less (Finite (of_nat iterations)) (maxToolCalls_or_default options) \<Longrightarrow>
       run env registeredTools options iterations st
         [Generated (fullPrompt st), Parsed t None]
         (Inr (completed (st\<lparr>finalText := t\<rparr>)))"
  | awaiting_manual_execution:
      "js_less (Finite (of_nat iterations)) (maxToolCalls_or_default options) \<Longrightarrow>
       \<not> autoExecute_or_default options \<Longrightarrow>
       run env registeredTools options iterations st
         [Generated (fullPrompt st), Parsed t (Some c)]
         (Inr \<lparr>text' = t, toolCalls = allToolCalls st @ [c], toolResults = [],
               isComplete = False, conversationId = None\<rparr>)"
  | serialisation_failed:
      "js_less (Finite (of_nat iterations)) (maxToolCalls_or_default options) \<Longrightarrow>
       autoExecute_or_default options \<Longrightarrow>
       answers env registeredTools c r evs \<Longrightarrow>
       stringify_optional env (resultData r) = Inl e \<Longrightarrow>
       run env registeredTools options iterations st
         ([Generated (fullPrompt st), Parsed t (Some c)] @ evs) (Inl e)"
  | executed_and_continued:
      "js_less (Finite (of_nat iterations)) (maxToolCalls_or_default options) \<Longrightarrow>
       autoExecute_or_default options \<Longrightarrow>
       answers env registeredTools c r evs \<Longrightarrow>
       stringify_optional env (resultData r) = Inr resultJson \<Longrightarrow>
       run env registeredTools options (increment iterations)
         \<lparr>fullPrompt = p, allToolCalls = allToolCalls st @ [c],
          allToolResults = allToolResults st @ [r], finalText = t\<rparr> rest res \<Longrightarrow>
       run env registeredTools options iterations st
         ([Generated (fullPrompt st), Parsed t (Some c)] @ evs
          @ [FollowedUp (ToolCall.toolName c) resultJson] @ rest)
         res"

section \<open>An example environment\<close>

text \<open>
  The scenario of the specification: a tool \<^verbatim>\<open>get_weather\<close>, a model that asks for it in
  its first \<open>k\<close> rounds and then answers in plain text. The world counts the invocations
  of \<^verbatim>\<open>generateStream\<close>. The native module and the builtins are stand-ins that agree with
  the real ones on the strings of the scenario.
\<close>

fun show_nat :: "nat \<Rightarrow> string" where
  "show_nat n =
     (if n < 10 then [''0123456789'' ! n]
      else show_nat (n div 10) @ [''0123456789'' ! (n mod 10)])"

definition show_int :: "int \<Rightarrow> string" where
  "show_int i = (if i < 0 then ''-'' @ show_nat (nat (- i)) else show_nat (nat i))"

definition quoted :: "string \<Rightarrow> string" where
  "quoted s = [CHR 0x22] @ s @ [CHR 0x22]"

fun commas :: "string list \<Rightarrow> string" where
  "commas [] = []"
| "commas [x] = x"
| "commas (x # y # ys) = x @ '','' @ commas (y # ys)"

text \<open>A serialiser for the examples: integers, and one decimal digit otherwise; no escapes.\<close>

fun example_stringify :: "json \<Rightarrow> string" where
  "example_stringify JNull = ''null''"
| "example_stringify (JBool b) = (if b then ''true'' else ''false'')"
| "example_stringify (JNum r) =
     (if r = of_int \<lfloor>r\<rfloor> then show_int \<lfloor>r\<rfloor>
      else show_int \<lfloor>r\<rfloor> @ ''.'' @ show_int \<lfloor>(r - of_int \<lfloor>r\<rfloor>) * 10\<rfloor>)"
| "example_stringify (JStr s) = quoted s"
| "example_stringify (JArr xs) = ''['' @ commas (map example_stringify xs) @ '']''"
| "example_stringify (JObj kvs) =
     ''{'' @ commas (map (\<lambda>(k, v). quoted k @ '':'' @ example_stringify v) kvs) @ ''}''"

definition example_String :: "json \<Rightarrow> string" where
  "example_String v =
     (case v of JStr s \<Rightarrow> s | JObj kvs \<Rightarrow> ''[object Object]'' | _ \<Rightarrow> example_stringify v)"

definition weather_output :: string where
  \<open>weather_output =
     ''<tool_call>{"tool":"get_weather","arguments":{"location":"SF"}}</tool_call>''\<close>

definition answer_output :: string where
  "answer_output = ''It is 18 degrees in SF.''"

text \<open>What \<^verbatim>\<open>ToolCallingBridge::parseToolCall\<close> returns for the two outputs.\<close>

definition weather_parsed_json :: string where
  \<open>weather_parsed_json =
     ''{"argumentsJson":{"location":"SF"},"callId":1,"cleanText":"","hasToolCall":true,"toolName":"get_weather"}''\<close>

definition answer_parsed_json :: string where
  \<open>answer_parsed_json = ''{"cleanText":"It is 18 degrees in SF.","hasToolCall":false}''\<close>

definition example_parseToolCallFromOutput :: "string \<Rightarrow> nat \<Rightarrow> (thrown + string) \<times> nat" where
  "example_parseToolCallFromOutput out w =
     (if out = weather_output then (Inr weather_parsed_json, w)
      else if out = answer_output then (Inr answer_parsed_json, w)
      else (Inl (Error ''parse failed''), w))"

definition example_JSON_parse_result :: "string \<Rightarrow> thrown + parse_result" where
  "example_JSON_parse_result j =
     (if j = weather_parsed_json then
        Inr \<lparr>hasToolCall = True, cleanText = Some [], toolName = ''get_weather'',
             argumentsJson = Some (JObj [(''location'', JStr ''SF'')]), callId = Some 1\<rparr>
      else if j = answer_parsed_json then
        Inr \<lparr>hasToolCall = False, cleanText = Some answer_output, toolName = [],
             argumentsJson = None, callId = None\<rparr>
      else Inl (Error ''Unexpected token''))"

definition example_env :: "nat \<Rightarrow> nat env" where
  "example_env k =
     \<lparr>isNativeModuleAvailable = (\<lambda>w. True),
      native_parseToolCallFromOutput = example_parseToolCallFromOutput,
      native_formatToolsForPrompt = (\<lambda>toolsJson fmt w. (Inr (''Tools: '' @ toolsJson), w)),
      native_buildInitialPrompt =
        (\<lambda>userPrompt toolsJson optionsJson w.
           (Inr (''Tools: '' @ toolsJson @ newlines @ ''User: '' @ userPrompt), w)),
      native_buildFollowupPrompt =
        (\<lambda>originalPrompt toolsPrompt tn resultJson keep w.
           (Inr (''User: '' @ originalPrompt @ newlines @ tn @ '' returned '' @ resultJson), w)),
      generateStream =
        (\<lambda>p opts w. (Inr (if w < k then [weather_output] else [''It is 18 degrees '', ''in SF.'']),
                      Suc w)),
      JSON_parse = (\<lambda>j. Inl (Error ''Unexpected token'')),
      JSON_parse_result = example_JSON_parse_result,
      JSON_stringify = example_stringify,
      JSON_stringify_foreign = (\<lambda>x. Inl (Error ''Do not know how to serialize a BigInt'')),
      Date_now = (\<lambda>w. 1700000000000 + int w),
      Number_toString = show_int,
      String = example_String,
      toLowerCase = (\<lambda>x. x)\<rparr>"

text \<open>A model that asks for the tool in every round.\<close>

definition calling_env :: "nat env" where
  "calling_env =
     (example_env 0)\<lparr>generateStream := (\<lambda>p opts w. (Inr [weather_output], Suc w))\<rparr>"

definition weather_definition :: ToolDefinition where
  "weather_definition =
     \<lparr>ToolDefinition.name = ''get_weather'',
      ToolDefinition.description = ''Current weather of a city'',
      parameters =
        [\<lparr>ToolParameter.name = ''location'', type' = Type_string,
          ToolParameter.description = ''City'', required = True,
          defaultValue = None, enum' = None\<rparr>],
      category = None\<rparr>"

definition weather_executor :: "nat ToolExecutor" where
  "weather_executor args w = (Inr (Data (JObj [(''temperature'', JNum 18)])), w)"

definition failing_executor :: "nat ToolExecutor" where
  "failing_executor args w = (Inl (Error ''network down''), w)"

definition weather_registry :: "nat registry" where
  "weather_registry = registerTool weather_definition weather_executor []"

definition failing_registry :: "nat registry" where
  "failing_registry = registerTool weather_definition failing_executor []"

text \<open>An executor whose result holds a \<^verbatim>\<open>BigInt\<close>, as in \<^verbatim>\<open>{ population: 883305n }\<close>.\<close>

definition bigint_executor :: "nat ToolExecutor" where
  "bigint_executor args w = (Inr (Foreign 0), w)"

definition bigint_registry :: "nat registry" where
  "bigint_registry = registerTool weather_definition bigint_executor []"

text \<open>An executor that throws after the native module has gone (the world is then 100).\<close>

definition unplugging_executor :: "nat ToolExecutor" where
  "unplugging_executor args w = (Inl (Error ''network down''), 100)"

definition unplugging_registry :: "nat registry" where
  "unplugging_registry = registerTool weather_definition unplugging_executor []"

definition weather_call :: ToolCall where
  "weather_call =
     \<lparr>ToolCall.toolName = ''get_weather'',
      arguments = JObj [(''location'', JStr ''SF'')],
      ToolCall.callId = Some ''call_1''\<rparr>"

definition no_options :: ToolCallingOptions where
  "no_options =
     \<lparr>tools = None, maxToolCalls = None, autoExecute = None,
      ToolCallingOptions.temperature = None, ToolCallingOptions.maxTokens = None,
      systemPrompt = None, replaceSystemPrompt = None, keepToolsAvailable = None,
      format = None\<rparr>"

definition start :: "nat sys" where
  "start = \<lparr>world = 0, trace = []\<rparr>"

text \<open>
  The runs of the examples: \<^verbatim>\<open>generateWithTools\<close> on the question, one pass through the loop body
  from the first prompt, a parse result whose \<^verbatim>\<open>argumentsJson\<close> is a string that is not JSON,
  and a native parser that reports an error.
\<close>

definition weather_result :: ToolResult where
  "weather_result = \<lparr>ToolResult.toolName = ''get_weather'', success = True,
      result = Some (Data (JObj [(''temperature'', JNum 18)])), error = None,
      ToolResult.callId = Some ''call_1''\<rparr>"

definition bigint_result :: ToolResult where
  "bigint_result = \<lparr>ToolResult.toolName = ''get_weather'', success = True,
      result = Some (Foreign 0), error = None, ToolResult.callId = Some ''call_1''\<rparr>"

definition weather_run ::
  "nat \<Rightarrow> nat registry \<Rightarrow> ToolCallingOptions \<Rightarrow> ((thrown + ToolCallingResult) \<times> nat sys) option" where
  "weather_run k reg options = generateWithTools (example_env k) reg ''Weather in SF?'' options start"

definition first_state :: loop_state where
  "first_state =
     \<lparr>fullPrompt = ''Weather in SF?'', allToolCalls = [], allToolResults = [], finalText = []\<rparr>"

definition weather_iteration :: "nat env \<Rightarrow> nat registry \<Rightarrow> (thrown + outcome) \<times> nat sys" where
  "weather_iteration env reg = iteration env reg ''Weather in SF?'' no_options [] first_state start"

definition broken_arguments :: parse_result where
  "broken_arguments =
     \<lparr>hasToolCall = True, cleanText = Some [], toolName = ''get_weather'',
      argumentsJson = Some (JStr ''{location: SF''), callId = Some 1\<rparr>"

definition failing_parser :: "string \<Rightarrow> rac_result \<times> rac_tool_call" where
  "failing_parser out =
     (RAC_ERROR 1,
      \<lparr>has_tool_call = False, tool_name = None, arguments_json = None, clean_text = None,
       call_id = 0\<rparr>)"

section \<open>Auxiliary facts\<close>

lemmas action_defs = ret_def bind_def try_catch_def lift_def observe_def extern_def emit_def

lemma generated_append: "generated (xs @ ys) = generated xs @ generated ys"
  by (induction xs rule: generated.induct) auto

lemma parsed_append: "parsed (xs @ ys) = parsed xs @ parsed ys"
  by (induction xs rule: parsed.induct) auto

lemma executed_append: "executed (xs @ ys) = executed xs @ executed ys"
  by (induction xs rule: executed.induct) auto

lemma parseToolCallViaCpp_returns:
  "\<exists>v s'. parseToolCallViaCpp env out s = (Inr v, s') \<and> trace s' = trace s"
  unfolding parseToolCallViaCpp_def parseToolCall_try_def action_defs
  by (auto split: prod.splits sum.splits)

lemma buildInitialPromptViaCpp_returns:
  "\<exists>v s'. buildInitialPromptViaCpp env u t options s = (Inr v, s') \<and> trace s' = trace s"
  unfolding buildInitialPromptViaCpp_def action_defs
  by (auto split: prod.splits sum.splits)

lemma buildFollowupPromptViaCpp_returns:
  "\<exists>v s'. buildFollowupPromptViaCpp env p tp n r k s = (Inr v, s') \<and> trace s' = trace s"
  unfolding buildFollowupPromptViaCpp_def action_defs
  by (auto split: prod.splits sum.splits)

lemma formatToolsForPromptAsync_returns:
  "\<exists>v s'. formatToolsForPromptAsync env reg ts fmt s = (Inr v, s') \<and> trace s' = trace s"
  unfolding formatToolsForPromptAsync_def action_defs Let_def
  by (auto split: prod.splits sum.splits)

lemma prepare_returns:
  "\<exists>p tp s'. prepare env reg prompt options s = (Inr (p, tp), s') \<and> trace s' = trace s"
proof -
  let ?ts = "case tools options of None \<Rightarrow> getRegisteredTools reg | Some l \<Rightarrow> l"
  let ?fmt = "if keepToolsAvailable_or_default options
              then formatToolsForPromptAsync env reg (Some ?ts)
                     (Some (or_else (format options) ''default''))
              else ret []"
  obtain p s1 where b: "buildInitialPromptViaCpp env prompt (serialize_tools env ?ts) options s = (Inr p, s1)"
    and t1: "trace s1 = trace s"
    using buildInitialPromptViaCpp_returns by blast
  have "\<exists>tp s2. ?fmt s1 = (Inr tp, s2) \<and> trace s2 = trace s1"
    by (simp add: ret_def formatToolsForPromptAsync_returns)
  then obtain tp s2 where f: "?fmt s1 = (Inr tp, s2)" and t2: "trace s2 = trace s1"
    by blast
  from b f t1 t2 show ?thesis
    by (simp add: prepare_def Let_def bind_def ret_def)
qed

lemma executeTool_returns:
  "\<exists>r s' evs. executeTool env reg c s = (Inr r, s') \<and> trace s' = trace s @ evs
      \<and> ToolResult.toolName r = ToolCall.toolName c \<and> ToolResult.callId r = ToolCall.callId c
      \<and> (case map_of reg (ToolCall.toolName c) of
            None \<Rightarrow> evs = [] \<and> s' = s \<and> r = unknown_tool_result c
          | Some tool \<Rightarrow> (\<exists>x. evs = [Executed (ToolCall.toolName c) (arguments c) x] 
               \<and> executor tool (arguments c) (world s) = (x, world s')
               \<and> (case x of Inl e \<Rightarrow> \<not> success r \<and> result r = None \<and> error r = Some (errorMessage env e)
                    | Inr v \<Rightarrow> success r \<and> result r = Some v \<and> error r = None)))"
  unfolding executeTool_def invoke_executor_def action_defs unknown_tool_result_def
  by (auto split: prod.splits sum.splits option.splits)

lemma executeTool_answers:
  "\<exists>r s' evs. executeTool env reg c s = (Inr r, s') \<and> trace s' = trace s @ evs \<and> answers env reg c r evs"
  using executeTool_returns [of env reg c s] unfolding answers_def
  by (fastforce split: option.splits)

lemma iteration_cases:
  assumes "iteration env reg prompt options tp st s = (out, s')"
  shows "(\<exists>e. out = Inl e \<and> trace s' = trace s @ [Generated (fullPrompt st)])
       \<or> (\<exists>t. out = Inr (Break (st\<lparr>finalText := t\<rparr>))
              \<and> trace s' = trace s @ [Generated (fullPrompt st), Parsed t None])
       \<or> (\<exists>t c. \<not> autoExecute_or_default options
              \<and> out = Inr (Return \<lparr>text' = t, toolCalls = allToolCalls st @ [c], toolResults = [],
                                   isComplete = False, conversationId = None\<rparr>)
              \<and> trace s' = trace s @ [Generated (fullPrompt st), Parsed t (Some c)])
       \<or> (\<exists>t c r evs e. autoExecute_or_default options
              \<and> out = Inl e
              \<and> answers env reg c r evs
              \<and> stringify_optional env (resultData r) = Inl e
              \<and> trace s' = trace s @ [Generated (fullPrompt st), Parsed t (Some c)] @ evs)
       \<or> (\<exists>t c r p evs j. autoExecute_or_default options
              \<and> out = Inr (Continue \<lparr>fullPrompt = p, allToolCalls = allToolCalls st @ [c],
                                     allToolResults = allToolResults st @ [r], finalText = t\<rparr>)
              \<and> answers env reg c r evs
              \<and> stringify_optional env (resultData r) = Inr j
              \<and> trace s' = trace s @ [Generated (fullPrompt st), Parsed t (Some c)] @ evs
                   @ [FollowedUp (ToolCall.toolName c) j])"
proof -
  define gopts where "gopts = \<lparr>generation_options.maxTokens = ToolCallingOptions.maxTokens options,
                      generation_options.temperature = ToolCallingOptions.temperature options\<rparr>"
  obtain g w1 where g: "generateStream env (fullPrompt st) gopts (world s) = (g, w1)"
    by force
  show ?thesis
  proof (cases g)
    case (Inl e)
    with assms g show ?thesis
      by (auto simp: iteration_def action_defs gopts_def)
  next
    case (Inr toks)
    define s2 where "s2 = s\<lparr>trace := trace s @ [Generated (fullPrompt st)], world := w1\<rparr>"
    obtain v s3 where p: "parseToolCallViaCpp env (concat toks) s2 = (Inr v, s3)"
       and t3: "trace s3 = trace s2"
      using parseToolCallViaCpp_returns by blast
    define s4 where "s4 = s3\<lparr>trace := trace s3 @ [Parsed (fst v) (snd v)]\<rparr>"
    show ?thesis
    proof (cases "snd v")
      case None
      with assms g Inr p t3 show ?thesis
        by (auto simp: iteration_def action_defs gopts_def s2_def)
    next
      case (Some c)
      show ?thesis
      proof (cases "autoExecute_or_default options")
        case False
        with assms g Inr p t3 Some show ?thesis
          by (auto simp: iteration_def action_defs gopts_def s2_def)
      next
        case True
        obtain r s5 evs where e: "executeTool env reg c s4 = (Inr r, s5)"
          and t5: "trace s5 = trace s4 @ evs" and a: "answers env reg c r evs"
          using executeTool_answers by blast
        show ?thesis
        proof (cases "stringify_optional env (resultData r)")
          case (Inl x)
          from assms g Inr p t3 Some True e t5 a Inl show ?thesis
            by (auto simp: iteration_def action_defs gopts_def s2_def s4_def)
        next
          case j: (Inr j)
          define s6 where "s6 = s5\<lparr>trace := trace s5 @ [FollowedUp (ToolCall.toolName c) j]\<rparr>"
          obtain q s7 where f: "buildFollowupPromptViaCpp env prompt tp (ToolCall.toolName c)
                j (keepToolsAvailable_or_default options) s6 = (Inr q, s7)"
            and t7: "trace s7 = trace s6"
            using buildFollowupPromptViaCpp_returns by blast
          from assms g Inr p t3 Some True e t5 f t7 a j show ?thesis
            by (auto simp: iteration_def action_defs gopts_def s2_def s4_def s6_def)
        qed
      qed
    qed
  qed
qed


lemma tool_loop_done:
  "\<not> js_less (Finite (of_nat iterations)) (maxToolCalls_or_default options) \<Longrightarrow>
   tool_loop env reg prompt options tp iterations st s = Some (Inr (completed st), s)"
  by (simp add: tool_loop.simps)

lemma tool_loop_step:
  "js_less (Finite (of_nat iterations)) (maxToolCalls_or_default options) \<Longrightarrow>
   iteration env reg prompt options tp st s = (out, s1) \<Longrightarrow>
   tool_loop env reg prompt options tp iterations st s =
     (case out of
        Inl e \<Rightarrow> Some (Inl e, s1)
      | Inr (Continue st') \<Rightarrow> tool_loop env reg prompt options tp (increment iterations) st' s1
      | Inr (Break st') \<Rightarrow> Some (Inr (completed st'), s1)
      | Inr (Return r) \<Rightarrow> Some (Inr r, s1))"
  by (subst tool_loop.simps) (simp split: sum.splits outcome.splits)

lemma tool_loop_run:
  "tool_loop env reg prompt options tp i st s = Some y \<Longrightarrow>
   \<exists>evs. trace (snd y) = trace s @ evs \<and> run env reg options i st evs (fst y)"
proof (induction env reg prompt options tp i st s y
    rule: tool_loop.raw_induct [rotated 1, consumes 1, case_names 1])
  case (1 loop env reg prompt options tp i st s y)
  show ?case
  proof (cases "js_less (Finite (of_nat i)) (maxToolCalls_or_default options)")
    case False
    with "1.hyps" show ?thesis by (auto intro: run.exhausted)
  next
    case lt: True
    obtain out s1 where it: "iteration env reg prompt options tp st s = (out, s1)" by force
    from iteration_cases [OF it] show ?thesis
    proof (elim disjE exE conjE)
      fix e assume "out = Inl e" "trace s1 = trace s @ [Generated (fullPrompt st)]"
      with "1.hyps" lt it show ?thesis by (auto intro: run.generation_failed)
    next
      fix t assume "out = Inr (Break (st\<lparr>finalText := t\<rparr>))"
        "trace s1 = trace s @ [Generated (fullPrompt st), Parsed t None]"
      with "1.hyps" lt it show ?thesis by (auto intro: run.answered)
    next
      fix t c assume "out = Inr (Return \<lparr>text' = t, toolCalls = allToolCalls st @ [c], toolResults = [],
                                     isComplete = False, conversationId = None\<rparr>)"
        "trace s1 = trace s @ [Generated (fullPrompt st), Parsed t (Some c)]"
        "\<not> autoExecute_or_default options"
      with "1.hyps" lt it show ?thesis by (auto intro: run.awaiting_manual_execution)
    next
      fix t c r evs e
      assume out: "out = Inl e" and a: "answers env reg c r evs"
        and au: "autoExecute_or_default options"
        and j: "stringify_optional env (resultData r) = Inl e"
        and tr: "trace s1 = trace s @ [Generated (fullPrompt st), Parsed t (Some c)] @ evs"
      from "1.hyps" lt it out have "y = (Inl e, s1)" by simp
      with run.serialisation_failed [OF lt au a j, of st t] tr show ?thesis
        by auto
    next
      fix t c r p evs j
      assume out: "out = Inr (Continue \<lparr>fullPrompt = p, allToolCalls = allToolCalls st @ [c],
                                       allToolResults = allToolResults st @ [r], finalText = t\<rparr>)"
        and a: "answers env reg c r evs" and au: "autoExecute_or_default options"
        and j: "stringify_optional env (resultData r) = Inr j"
        and tr: "trace s1 = trace s @ [Generated (fullPrompt st), Parsed t (Some c)] @ evs
                     @ [FollowedUp (ToolCall.toolName c) j]"
      let ?st = "\<lparr>fullPrompt = p, allToolCalls = allToolCalls st @ [c],
                                       allToolResults = allToolResults st @ [r], finalText = t\<rparr>"
      from "1.hyps" lt it out have rec: "loop env reg prompt options tp (increment i) ?st s1 = Some y"
        by simp
      from "1.IH" [OF rec] obtain rest where
        e': "trace (snd y) = trace s1 @ rest" "run env reg options (increment i) ?st rest (fst y)" by blast
      from run.executed_and_continued [OF lt au a j e'(2)] e'(1) tr show ?thesis
        by auto
    qed
  qed
qed

lemma generateWithTools_run:
  assumes "generateWithTools env reg prompt options s = Some (res, s')"
  shows "\<exists>p. run env reg options 0
           \<lparr>fullPrompt = p, allToolCalls = [], allToolResults = [], finalText = []\<rparr>
           (new_events s s') res"
proof -
  obtain p tp s1 where b: "prepare env reg prompt options s = (Inr (p, tp), s1)"
    and t1: "trace s1 = trace s"
    using prepare_returns by blast
  from assms b have "tool_loop env reg prompt options tp 0
            \<lparr>fullPrompt = p, allToolCalls = [], allToolResults = [], finalText = []\<rparr> s1 = Some (res, s')"
    by (simp add: generateWithTools_def)
  from tool_loop_run [OF this] t1 show ?thesis
    by (auto simp: new_events_def)
qed

lemma generated_answers: "answers env reg c r evs \<Longrightarrow> generated evs = []"
  by (auto simp: answers_def split: option.splits)

lemma parsed_answers: "answers env reg c r evs \<Longrightarrow> parsed evs = []"
  by (auto simp: answers_def split: option.splits)

lemma executed_answers:
  "answers env reg c r evs \<Longrightarrow>
   executed evs = (if map_of reg (ToolCall.toolName c) = None then []
                   else [(ToolCall.toolName c, arguments c)])"
  by (auto simp: answers_def split: option.splits)


lemma below_bound:
  assumes "js_less (Finite (of_nat i)) (Finite b)" and "b \<le> 2 ^ 53"
  shows "increment i = Suc i" and "i < nat \<lceil>b\<rceil>"
proof -
  from assms have lt: "(of_nat i :: rat) < b" by simp
  with assms(2) have "(of_nat i :: rat) < 2 ^ 53" by linarith
  then have "i < 2 ^ 53"
    by (metis of_nat_less_iff of_nat_numeral of_nat_power)
  then show "increment i = Suc i" by (simp add: increment_def)
  from lt have "int i < \<lceil>b\<rceil>" by (simp add: less_ceiling_iff)
  then show "i < nat \<lceil>b\<rceil>" by linarith
qed

lemma not_below_bound:
  assumes "\<not> js_less (Finite (of_nat i)) (Finite b)"
  shows "nat \<lceil>b\<rceil> \<le> i"
proof -
  from assms have "b \<le> of_nat i" by simp
  then have "\<lceil>b\<rceil> \<le> int i" by (simp add: ceiling_le_iff)
  then show ?thesis by linarith
qed

lemma tool_loop_returns:
  assumes "maxToolCalls_or_default options = Finite b" and "b \<le> 2 ^ 53"
  shows "\<exists>y. tool_loop env reg prompt options tp i st s = Some y"
proof (induction "nat \<lceil>b\<rceil> - i" arbitrary: i st s)
  case 0
  show ?case
  proof (cases "js_less (Finite (of_nat i)) (maxToolCalls_or_default options)")
    case True
    with assms below_bound(2) [of i b] 0 show ?thesis by simp
  next
    case False
    then show ?thesis by (simp add: tool_loop_done)
  qed
next
  case (Suc n)
  show ?case
  proof (cases "js_less (Finite (of_nat i)) (maxToolCalls_or_default options)")
    case False
    then show ?thesis by (simp add: tool_loop_done)
  next
    case True
    with assms have inc: "increment i = Suc i" using below_bound(1) [of i b] by simp
    obtain out s1 where it: "iteration env reg prompt options tp st s = (out, s1)" by force
    from Suc.hyps(2) have n: "n = nat \<lceil>b\<rceil> - Suc i" by linarith
    show ?thesis
    proof (cases out)
      case (Inl e)
      with tool_loop_step [OF True it] show ?thesis by simp
    next
      case (Inr o')
      then show ?thesis
        using tool_loop_step [OF True it] Suc.hyps(1) [OF n] inc
        by (cases o') auto
    qed
  qed
qed

lemma tool_loop_returns_manual:
  assumes "\<not> autoExecute_or_default options"
  shows "\<exists>y. tool_loop env reg prompt options tp i st s = Some y"
proof (cases "js_less (Finite (of_nat i)) (maxToolCalls_or_default options)")
  case False
  then show ?thesis by (simp add: tool_loop_done)
next
  case True
  obtain out s1 where it: "iteration env reg prompt options tp st s = (out, s1)" by force
  from iteration_cases [OF it] assms tool_loop_step [OF True it] show ?thesis
    by auto
qed

lemma run_generations:
  "run env reg options i st evs res \<Longrightarrow> maxToolCalls_or_default options = Finite b \<Longrightarrow>
   b \<le> 2 ^ 53 \<Longrightarrow> length (generated evs) \<le> nat \<lceil>b\<rceil> - i"
proof (induction rule: run.induct)
  case (executed_and_continued iterations c r evs resultJson p st t rest res)
  with below_bound [of iterations b] generated_answers [of env reg c r evs] show ?case
    by (simp add: generated_append)
qed (use below_bound(2) in \<open>fastforce simp: generated_append generated_answers\<close>)+

lemma run_all_calls:
  "run env reg options i st evs res \<Longrightarrow> maxToolCalls_or_default options = Finite b \<Longrightarrow>
   b \<le> 2 ^ 53 \<Longrightarrow> autoExecute_or_default options \<Longrightarrow>
   \<forall>p\<in>set (parsed evs). snd p \<noteq> None \<Longrightarrow> res = Inr r \<Longrightarrow>
   length (generated evs) = nat \<lceil>b\<rceil> - i \<and> isComplete r \<and>
   text' r = last (finalText st # map fst (parsed evs))"
proof (induction rule: run.induct)
  case (exhausted iterations st)
  with not_below_bound [of iterations b] show ?case by (auto simp: completed_def)
next
  case (generation_failed iterations st e)
  then show ?case by simp
next
  case (answered iterations st t)
  then show ?case by simp
next
  case (awaiting_manual_execution iterations st t c)
  then show ?case by simp
next
  case (serialisation_failed iterations c r evs e st t)
  then show ?case by simp
next
  case (executed_and_continued iterations c r' evs resultJson p st t rest res)
  from executed_and_continued.prems
  have "\<forall>p\<in>set (parsed rest). snd p \<noteq> None"
    by (simp add: parsed_append)
  with executed_and_continued have
    ih: "length (generated rest) = nat \<lceil>b\<rceil> - increment iterations"
      "isComplete r" "text' r = last (t # map fst (parsed rest))"
    by simp_all
  from executed_and_continued.hyps(3) have "generated evs = []" "parsed evs = []"
    by (simp_all add: generated_answers parsed_answers)
  with ih executed_and_continued.hyps(1) executed_and_continued.prems(1,2)
    below_bound [of iterations b] show ?case
    by (simp add: generated_append parsed_append)
qed

lemma run_unbounded:
  "run env reg options i st evs res \<Longrightarrow> maxToolCalls_or_default options = PosInfinity \<Longrightarrow>
   autoExecute_or_default options \<Longrightarrow> res = Inr r \<Longrightarrow>
   parsed evs \<noteq> [] \<and> snd (last (parsed evs)) = None"
  by (induction rule: run.induct) (auto simp: parsed_append parsed_answers)

lemma run_results_match:
  "run env reg options i st evs res \<Longrightarrow> res = Inr r \<Longrightarrow> isComplete r \<Longrightarrow>
   \<exists>cs rs. toolCalls r = allToolCalls st @ cs \<and> toolResults r = allToolResults st @ rs \<and>
     list_all2 (\<lambda>c x. ToolResult.toolName x = ToolCall.toolName c \<and>
                       ToolResult.callId x = ToolCall.callId c) cs rs \<and>
     executed evs = map (\<lambda>c. (ToolCall.toolName c, arguments c))
                      (filter (\<lambda>c. map_of reg (ToolCall.toolName c) \<noteq> None) cs)"
proof (induction rule: run.induct)
  case (exhausted iterations st)
  then show ?case by (auto simp: completed_def)
next
  case (generation_failed iterations st e)
  then show ?case by simp
next
  case (answered iterations st t)
  then show ?case by (auto simp: completed_def)
next
  case (awaiting_manual_execution iterations st t c)
  then show ?case by auto
next
  case (serialisation_failed iterations c r evs e st t)
  then show ?case by simp
next
  case (executed_and_continued iterations c r' evs resultJson p st t rest res)
  then obtain cs rs where
    ih: "toolCalls r = (allToolCalls st @ [c]) @ cs" "toolResults r = (allToolResults st @ [r']) @ rs"
     "list_all2 (\<lambda>c x. ToolResult.toolName x = ToolCall.toolName c \<and>
                       ToolResult.callId x = ToolCall.callId c) cs rs"
     "executed rest = map (\<lambda>c. (ToolCall.toolName c, arguments c))
                      (filter (\<lambda>c. map_of reg (ToolCall.toolName c) \<noteq> None) cs)"
    by auto
  from executed_and_continued.hyps(3) have
    m: "ToolResult.toolName r' = ToolCall.toolName c" "ToolResult.callId r' = ToolCall.callId c"
    by (simp_all add: answers_def)
  show ?case
    apply (rule exI [of _ "c # cs"])
    apply (rule exI [of _ "r' # rs"])
    using ih m executed_answers [OF executed_and_continued.hyps(3)]
    by (simp add: executed_append)
qed


lemma at_least_one: "js_less_eq (Finite 1) n \<Longrightarrow> js_less (Finite (of_nat 0)) n"
  by (cases n) auto

lemma at_most_one: "js_less_eq n (Finite 1) \<Longrightarrow> \<not> js_less (Finite (of_nat 0)) (minus_one n)"
  by (cases n) auto

lemmas example_defs = example_env_def example_parseToolCallFromOutput_def example_JSON_parse_result_def
  weather_output_def answer_output_def weather_parsed_json_def answer_parsed_json_def
  weather_registry_def failing_registry_def bigint_registry_def unplugging_registry_def
  weather_definition_def weather_executor_def failing_executor_def bigint_executor_def
  unplugging_executor_def weather_call_def weather_result_def bigint_result_def no_options_def
  start_def first_state_def registerTool_def show_int_def quoted_def example_String_def
  broken_arguments_def failing_parser_def

lemmas model_defs = generateWithTools_def prepare_def continueWithToolResult_def toolResult_json_def
  continuedPrompt_def buildInitialPromptViaCpp_def buildFollowupPromptViaCpp_def
  formatToolsForPromptAsync_def parseToolCallViaCpp_def parseToolCall_try_def executeTool_def
  invoke_executor_def iteration_def completed_def action_defs increment_def
  maxToolCalls_or_default_def autoExecute_or_default_def keepToolsAvailable_or_default_def
  parse_arguments_def make_callId_def serialize_tools_def tool_object_def parameter_object_def
  options_object_def resultData_def stringify_optional_def stringify_value_def
  getRegisteredTools_def toolsToFormat_def toolFormat_def newlines_def new_events_def
  returned_def events_of_def tool_loop.simps

lemmas run_defs = weather_run_def weather_iteration_def model_defs example_defs Let_def

lemma calling_iteration:
  "\<exists>st' s'. iteration calling_env weather_registry prompt
      (no_options\<lparr>maxToolCalls := Some PosInfinity\<rparr>) tp st s = (Inr (Continue st'), s')"
  by (simp add: calling_env_def model_defs example_defs Let_def)

lemma calling_loop:
  "tool_loop env reg prompt options tp i st s = Some y \<Longrightarrow>
   env = calling_env \<Longrightarrow> reg = weather_registry \<Longrightarrow>
   options = no_options\<lparr>maxToolCalls := Some PosInfinity\<rparr> \<Longrightarrow> False"
proof (induction env reg prompt options tp i st s y
    rule: tool_loop.raw_induct [rotated 1, consumes 1, case_names 1])
  case (1 loop env reg prompt options tp i st s y)
  from calling_iteration [of prompt tp st s] obtain st' s' where
    it: "iteration calling_env weather_registry prompt
      (no_options\<lparr>maxToolCalls := Some PosInfinity\<rparr>) tp st s = (Inr (Continue st'), s')"
    by blast
  have lt: "js_less (Finite (of_nat i)) (maxToolCalls_or_default (no_options\<lparr>maxToolCalls := Some PosInfinity\<rparr>))"
    by (simp add: maxToolCalls_or_default_def)
  from "1.hyps" "1.prems" it lt
  have "loop calling_env weather_registry prompt (no_options\<lparr>maxToolCalls := Some PosInfinity\<rparr>)
          tp (increment i) st' s' = Some y"
    by simp
  from "1.IH" [OF this] "1.prems" show False by simp
qed

lemma never_exhausted:
  "generateWithTools calling_env weather_registry prompt
     (no_options\<lparr>maxToolCalls := Some PosInfinity\<rparr>) s = None"
proof (cases "generateWithTools calling_env weather_registry prompt
     (no_options\<lparr>maxToolCalls := Some PosInfinity\<rparr>) s")
  case None then show ?thesis .
next
  case (Some y)
  obtain p tp s1 where "prepare calling_env weather_registry prompt
     (no_options\<lparr>maxToolCalls := Some PosInfinity\<rparr>) s = (Inr (p, tp), s1)"
    using prepare_returns by blast
  with Some have "tool_loop calling_env weather_registry prompt
     (no_options\<lparr>maxToolCalls := Some PosInfinity\<rparr>) tp 0
     \<lparr>fullPrompt = p, allToolCalls = [], allToolResults = [], finalText = []\<rparr> s1 = Some y"
    by (simp add: generateWithTools_def)
  from calling_loop [OF this] show ?thesis by simp
qed

section \<open>The claims\<close>

text \<open>
  Claim C1, as amended. With \<^verbatim>\<open>maxToolCalls = 0\<close> the loop test \<^verbatim>\<open>iterations < maxToolCalls\<close>
  fails at once: \<^verbatim>\<open>generateWithTools\<close> performs no generation, no parse and no execution, and
  returns the empty text, no calls, no results and \<^verbatim>\<open>isComplete = true\<close>.
\<close>

theorem maxToolCalls_zero_runs_nothing:
  assumes "maxToolCalls options = Some (Finite 0)"
  shows "\<exists>s'. generateWithTools env reg prompt options s =
                Some (Inr \<lparr>text' = [], toolCalls = [], toolResults = [], isComplete = True,
                           conversationId = None\<rparr>, s') \<and>
              new_events s s' = []"
proof -
  obtain p tp s1 where b: "prepare env reg prompt options s = (Inr (p, tp), s1)"
    and t1: "trace s1 = trace s"
    using prepare_returns by blast
  from assms have m: "\<not> js_less (Finite (of_nat 0)) (maxToolCalls_or_default options)"
    by (simp add: maxToolCalls_or_default_def)
  have "tool_loop env reg prompt options tp 0
          \<lparr>fullPrompt = p, allToolCalls = [], allToolResults = [], finalText = []\<rparr> s1 =
        Some (Inr (completed
          \<lparr>fullPrompt = p, allToolCalls = [], allToolResults = [], finalText = []\<rparr>), s1)"
    by (rule tool_loop_done [OF m])
  with b have "generateWithTools env reg prompt options s =
      Some (Inr \<lparr>text' = [], toolCalls = [], toolResults = [], isComplete = True,
                           conversationId = None\<rparr>, s1)"
    by (simp add: generateWithTools_def completed_def)
  moreover from t1 have "new_events s s1 = []"
    by (simp add: new_events_def)
  ultimately show ?thesis by blast
qed

theorem maxToolCalls_zero_runs_nothing_witness:
  "maxToolCalls (no_options\<lparr>maxToolCalls := Some (Finite 0)\<rparr>) = Some (Finite 0) \<and>
   returned (weather_run 1 weather_registry (no_options\<lparr>maxToolCalls := Some (Finite 0)\<rparr>)) =
     Some (Inr \<lparr>text' = [], toolCalls = [], toolResults = [], isComplete = True,
                conversationId = None\<rparr>) \<and>
   events_of start (weather_run 1 weather_registry (no_options\<lparr>maxToolCalls := Some (Finite 0)\<rparr>))
     = Some []"
  using maxToolCalls_zero_runs_nothing [of "no_options\<lparr>maxToolCalls := Some (Finite 0)\<rparr>"
    "example_env 1" weather_registry "''Weather in SF?''" start]
  by (auto simp: weather_run_def returned_def events_of_def)

text \<open>
  Claim C1 as stated (one generation, the call recorded) fails: in the example the model
  would answer with a well-formed call, and the run with \<^verbatim>\<open>maxToolCalls = 0\<close> generates nothing
  and records no call.
\<close>

theorem maxToolCalls_zero_counterexample:
  "fst (parseToolCallViaCpp (example_env 1) weather_output start) = Inr ([], Some weather_call) \<and>
   generateWithTools (example_env 1) weather_registry ''Weather in SF?''
     (no_options\<lparr>maxToolCalls := Some (Finite 0)\<rparr>) start =
     Some (Inr \<lparr>text' = [], toolCalls = [], toolResults = [], isComplete = True,
                conversationId = None\<rparr>, start) \<and>
   length (generated (new_events start start)) = 0"
  by (simp add: run_defs)

text \<open>
  Claim C2, as amended. When \<^verbatim>\<open>maxToolCalls\<close> is a finite number of at most \<open>2 ^ 53\<close>, every
  run ends, and it invokes generation at most \<open>\<lceil>maxToolCalls\<rceil>\<close> times: \<^verbatim>\<open>maxToolCalls\<close> times for
  a non-negative integer, never for a negative number. When such a run has automatic
  execution, finds a tool call in every parse and returns a result, it has invoked
  generation exactly \<open>\<lceil>maxToolCalls\<rceil>\<close> times, and the result has \<^verbatim>\<open>isComplete = true\<close> and the clean
  text of the last parse, or the empty text when nothing was parsed. When \<^verbatim>\<open>maxToolCalls\<close> is
  \<^verbatim>\<open>Infinity\<close>, a run with automatic execution that returns a result ends with a parse that
  finds no call, so a run in which every parse finds a call is never exhausted.
\<close>

theorem every_round_a_tool_call:
  "(maxToolCalls_or_default options = Finite b \<and> b \<le> 2 ^ 53 \<longrightarrow>
      (\<exists>res s'. generateWithTools env reg prompt options s = Some (res, s') \<and>
         length (generated (new_events s s')) \<le> nat \<lceil>b\<rceil> \<and>
         (autoExecute_or_default options \<and>
          (\<forall>p\<in>set (parsed (new_events s s')). snd p \<noteq> None) \<longrightarrow>
            (\<forall>r. res = Inr r \<longrightarrow>
               length (generated (new_events s s')) = nat \<lceil>b\<rceil> \<and>
               isComplete r \<and>
               text' r = (if parsed (new_events s s') = [] then []
                          else fst (last (parsed (new_events s s')))))))) \<and>
   (maxToolCalls_or_default options = PosInfinity \<and> autoExecute_or_default options \<and>
    generateWithTools env reg prompt options s = Some (Inr r', s'') \<longrightarrow>
      parsed (new_events s s'') \<noteq> [] \<and> snd (last (parsed (new_events s s''))) = None)"
proof (rule conjI; rule impI)
  assume h: "maxToolCalls_or_default options = Finite b \<and> b \<le> 2 ^ 53"
  then have m: "maxToolCalls_or_default options = Finite b" and b: "b \<le> 2 ^ 53" by simp_all
  obtain p tp s1 where pr: "prepare env reg prompt options s = (Inr (p, tp), s1)"
    using prepare_returns by blast
  from tool_loop_returns [OF m b] pr obtain res s' where
    g: "generateWithTools env reg prompt options s = Some (res, s')"
    by (fastforce simp: generateWithTools_def)
  from generateWithTools_run [OF g] obtain q where
    r: "run env reg options 0
       \<lparr>fullPrompt = q, allToolCalls = [], allToolResults = [], finalText = []\<rparr>
       (new_events s s') res" ..
  from run_generations [OF r m b]
  have le: "length (generated (new_events s s')) \<le> nat \<lceil>b\<rceil>" by simp
  have ex: "autoExecute_or_default options \<and>
          (\<forall>p\<in>set (parsed (new_events s s')). snd p \<noteq> None) \<longrightarrow>
            (\<forall>r. res = Inr r \<longrightarrow>
               length (generated (new_events s s')) = nat \<lceil>b\<rceil> \<and>
               isComplete r \<and>
               text' r = (if parsed (new_events s s') = [] then []
                          else fst (last (parsed (new_events s s')))))"
  proof (intro impI allI)
    fix x
    assume a: "autoExecute_or_default options \<and>
          (\<forall>p\<in>set (parsed (new_events s s')). snd p \<noteq> None)" and x: "res = Inr x"
    from run_all_calls [OF r m b _ _ x] a
    have "length (generated (new_events s s')) = nat \<lceil>b\<rceil> - 0" "isComplete x"
      "text' x = last ([] # map fst (parsed (new_events s s')))"
      by simp_all
    then show "length (generated (new_events s s')) = nat \<lceil>b\<rceil> \<and>
               isComplete x \<and>
               text' x = (if parsed (new_events s s') = [] then []
                          else fst (last (parsed (new_events s s'))))"
      by (simp add: last_map)
  qed
  from g le ex show "\<exists>res s'. generateWithTools env reg prompt options s = Some (res, s') \<and>
         length (generated (new_events s s')) \<le> nat \<lceil>b\<rceil> \<and>
         (autoExecute_or_default options \<and>
          (\<forall>p\<in>set (parsed (new_events s s')). snd p \<noteq> None) \<longrightarrow>
            (\<forall>r. res = Inr r \<longrightarrow>
               length (generated (new_events s s')) = nat \<lceil>b\<rceil> \<and>
               isComplete r \<and>
               text' r = (if parsed (new_events s s') = [] then []
                          else fst (last (parsed (new_events s s'))))))"
    by blast
next
  assume h: "maxToolCalls_or_default options = PosInfinity \<and> autoExecute_or_default options \<and>
    generateWithTools env reg prompt options s = Some (Inr r', s'')"
  then have g: "generateWithTools env reg prompt options s = Some (Inr r', s'')" by simp
  from generateWithTools_run [OF g] obtain q where
    r: "run env reg options 0
       \<lparr>fullPrompt = q, allToolCalls = [], allToolResults = [], finalText = []\<rparr>
       (new_events s s'') (Inr r')" ..
  from run_unbounded [OF r _ _ refl] h
  show "parsed (new_events s s'') \<noteq> [] \<and> snd (last (parsed (new_events s s''))) = None"
    by simp
qed

theorem every_round_a_tool_call_witness:
  "maxToolCalls_or_default (no_options\<lparr>maxToolCalls := Some (Finite 2)\<rparr>) = Finite 2 \<and>
   (2 :: rat) \<le> 2 ^ 53 \<and>
   autoExecute_or_default (no_options\<lparr>maxToolCalls := Some (Finite 2)\<rparr>) \<and>
   map_option parsed
     (events_of start (weather_run 2 weather_registry (no_options\<lparr>maxToolCalls := Some (Finite 2)\<rparr>))) =
     Some [([], Some weather_call), ([], Some weather_call)] \<and>
   returned (weather_run 2 weather_registry (no_options\<lparr>maxToolCalls := Some (Finite 2)\<rparr>)) =
     Some (Inr \<lparr>text' = [], toolCalls = [weather_call, weather_call],
          toolResults = [weather_result, weather_result], isComplete = True,
          conversationId = None\<rparr>) \<and>
   map_option length (map_option generated
     (events_of start (weather_run 2 weather_registry (no_options\<lparr>maxToolCalls := Some (Finite 2)\<rparr>)))) =
     Some (nat \<lceil>2 :: rat\<rceil>) \<and>
   maxToolCalls_or_default (no_options\<lparr>maxToolCalls := Some PosInfinity\<rparr>) = PosInfinity \<and>
   autoExecute_or_default (no_options\<lparr>maxToolCalls := Some PosInfinity\<rparr>) \<and>
   returned (weather_run 1 weather_registry (no_options\<lparr>maxToolCalls := Some PosInfinity\<rparr>)) =
     Some (Inr \<lparr>text' = answer_output, toolCalls = [weather_call],
          toolResults = [weather_result], isComplete = True, conversationId = None\<rparr>) \<and>
   map_option parsed
     (events_of start (weather_run 1 weather_registry (no_options\<lparr>maxToolCalls := Some PosInfinity\<rparr>))) =
     Some [([], Some weather_call), (answer_output, None)]"
  using
    every_round_a_tool_call [where env = "example_env 2" and reg = weather_registry
      and prompt = "''Weather in SF?''" and options = "no_options\<lparr>maxToolCalls := Some (Finite 2)\<rparr>"
      and s = start and b = 2
      and r' = "\<lparr>text' = [], toolCalls = [], toolResults = [], isComplete = True,
                 conversationId = None\<rparr>"
      and s'' = start]
    every_round_a_tool_call [where env = "example_env 1" and reg = weather_registry
      and prompt = "''Weather in SF?''" and options = "no_options\<lparr>maxToolCalls := Some PosInfinity\<rparr>"
      and s = start and b = 2
      and r' = "\<lparr>text' = answer_output, toolCalls = [weather_call],
          toolResults = [weather_result], isComplete = True, conversationId = None\<rparr>"
      and s'' = "snd (the (weather_run 1 weather_registry
                   (no_options\<lparr>maxToolCalls := Some PosInfinity\<rparr>)))"]
  by (simp add: run_defs)

text \<open>
  Claim C2 as stated (exactly \<^verbatim>\<open>maxToolCalls\<close> iterations, then a complete result) fails for a
  bound that is not an integer and for a tool result that cannot be serialised. With
  \<^verbatim>\<open>maxToolCalls = 1.5\<close> and a model that asks for the tool in every round, the run invokes
  generation twice, which is more than \<^verbatim>\<open>maxToolCalls\<close>. With the default bound and an executor
  whose result holds a \<^verbatim>\<open>BigInt\<close>, the run whose only parse finds a call throws out of
  \<^verbatim>\<open>JSON.stringify\<close> and returns no result. With \<^verbatim>\<open>maxToolCalls = Infinity\<close> and a model that asks
  for the tool in every round, the run does not end.
\<close>

theorem every_round_a_tool_call_counterexample:
  "(autoExecute_or_default (no_options\<lparr>maxToolCalls := Some (Finite (3 / 2))\<rparr>) \<and>
    maxToolCalls_or_default (no_options\<lparr>maxToolCalls := Some (Finite (3 / 2))\<rparr>) = Finite (3 / 2) \<and>
    map_option parsed
      (events_of start
         (weather_run 5 weather_registry (no_options\<lparr>maxToolCalls := Some (Finite (3 / 2))\<rparr>))) =
      Some [([], Some weather_call), ([], Some weather_call)] \<and>
    map_option length (map_option generated
      (events_of start
         (weather_run 5 weather_registry (no_options\<lparr>maxToolCalls := Some (Finite (3 / 2))\<rparr>)))) =
      Some 2 \<and>
    \<not> js_less_eq (Finite (of_nat 2)) (Finite (3 / 2)) \<and>
    autoExecute_or_default no_options \<and>
    map_option parsed (events_of start (weather_run 5 bigint_registry no_options)) =
      Some [([], Some weather_call)] \<and>
    returned (weather_run 5 bigint_registry no_options) =
      Some (Inl (Error ''Do not know how to serialize a BigInt''))) \<and>
   generateWithTools calling_env weather_registry ''Weather in SF?''
     (no_options\<lparr>maxToolCalls := Some PosInfinity\<rparr>) start = None"
proof (rule conjI)
  show "autoExecute_or_default (no_options\<lparr>maxToolCalls := Some (Finite (3 / 2))\<rparr>) \<and>
    maxToolCalls_or_default (no_options\<lparr>maxToolCalls := Some (Finite (3 / 2))\<rparr>) = Finite (3 / 2) \<and>
    map_option parsed
      (events_of start
         (weather_run 5 weather_registry (no_options\<lparr>maxToolCalls := Some (Finite (3 / 2))\<rparr>))) =
      Some [([], Some weather_call), ([], Some weather_call)] \<and>
    map_option length (map_option generated
      (events_of start
         (weather_run 5 weather_registry (no_options\<lparr>maxToolCalls := Some (Finite (3 / 2))\<rparr>)))) =
      Some 2 \<and>
    \<not> js_less_eq (Finite (of_nat 2)) (Finite (3 / 2)) \<and>
    autoExecute_or_default no_options \<and>
    map_option parsed (events_of start (weather_run 5 bigint_registry no_options)) =
      Some [([], Some weather_call)] \<and>
    returned (weather_run 5 bigint_registry no_options) =
      Some (Inl (Error ''Do not know how to serialize a BigInt''))"
    by (simp add: run_defs)
  show "generateWithTools calling_env weather_registry ''Weather in SF?''
     (no_options\<lparr>maxToolCalls := Some PosInfinity\<rparr>) start = None"
    by (rule never_exhausted)
qed

text \<open>
  Claim C3. A run with \<^verbatim>\<open>maxToolCalls\<close> at least 1 that returns a result has parsed at least
  one output; when the first parse finds no tool call, the run has invoked generation
  exactly once, parsed once, executed nothing, and returns that clean text with no calls, no
  results and \<^verbatim>\<open>isComplete = true\<close>. And the run ends: when the first pass through the loop
  body ends at \<^verbatim>\<open>break\<close>, \<^verbatim>\<open>generateWithTools\<close> returns after that pass.
\<close>

theorem no_tool_call_one_round:
  assumes "js_less_eq (Finite 1) (maxToolCalls_or_default options)"
  shows "(generateWithTools env reg prompt options s = Some (Inr r, s') \<longrightarrow>
           parsed (new_events s s') \<noteq> [] \<and>
           (snd (hd (parsed (new_events s s'))) = None \<longrightarrow>
              length (generated (new_events s s')) = 1 \<and>
              parsed (new_events s s') = [(text' r, None)] \<and>
              executed (new_events s s') = [] \<and>
              r = \<lparr>text' = fst (hd (parsed (new_events s s'))), toolCalls = [], toolResults = [],
                   isComplete = True, conversationId = None\<rparr>)) \<and>
         (prepare env reg prompt options s = (Inr (p, tp), s1) \<and>
          iteration env reg prompt options tp
            \<lparr>fullPrompt = p, allToolCalls = [], allToolResults = [], finalText = []\<rparr> s1 =
            (Inr (Break st'), s2) \<longrightarrow>
            generateWithTools env reg prompt options s = Some (Inr (completed st'), s2))"
proof (rule conjI; rule impI)
  assume g: "generateWithTools env reg prompt options s = Some (Inr r, s')"
  from generateWithTools_run [OF g] obtain q where
    "run env reg options 0
       \<lparr>fullPrompt = q, allToolCalls = [], allToolResults = [], finalText = []\<rparr>
       (new_events s s') (Inr r)" ..
  then show "parsed (new_events s s') \<noteq> [] \<and>
           (snd (hd (parsed (new_events s s'))) = None \<longrightarrow>
              length (generated (new_events s s')) = 1 \<and>
              parsed (new_events s s') = [(text' r, None)] \<and>
              executed (new_events s s') = [] \<and>
              r = \<lparr>text' = fst (hd (parsed (new_events s s'))), toolCalls = [], toolResults = [],
                   isComplete = True, conversationId = None\<rparr>)"
    using at_least_one [OF assms]
    by (cases rule: run.cases) (auto simp: completed_def parsed_append)
next
  assume "prepare env reg prompt options s = (Inr (p, tp), s1) \<and>
          iteration env reg prompt options tp
            \<lparr>fullPrompt = p, allToolCalls = [], allToolResults = [], finalText = []\<rparr> s1 =
            (Inr (Break st'), s2)"
  then have b: "prepare env reg prompt options s = (Inr (p, tp), s1)"
    and it: "iteration env reg prompt options tp
            \<lparr>fullPrompt = p, allToolCalls = [], allToolResults = [], finalText = []\<rparr> s1 =
            (Inr (Break st'), s2)"
    by simp_all
  from tool_loop_step [OF at_least_one [OF assms] it]
  have "tool_loop env reg prompt options tp 0
          \<lparr>fullPrompt = p, allToolCalls = [], allToolResults = [], finalText = []\<rparr> s1 =
        Some (Inr (completed st'), s2)"
    by simp
  with b show "generateWithTools env reg prompt options s = Some (Inr (completed st'), s2)"
    by (simp add: generateWithTools_def)
qed

theorem no_tool_call_one_round_witness:
  "js_less_eq (Finite 1) (maxToolCalls_or_default no_options) \<and>
   prepare (example_env 0) [] ''Weather in SF?'' no_options start =
     (Inr (''Tools: []'' @ newlines @ ''User: Weather in SF?'', []), start) \<and>
   iteration (example_env 0) [] ''Weather in SF?'' no_options []
     \<lparr>fullPrompt = ''Tools: []'' @ newlines @ ''User: Weather in SF?'', allToolCalls = [],
      allToolResults = [], finalText = []\<rparr> start =
     (Inr (Break \<lparr>fullPrompt = ''Tools: []'' @ newlines @ ''User: Weather in SF?'',
                  allToolCalls = [], allToolResults = [], finalText = answer_output\<rparr>),
      \<lparr>world = 1,
       trace = [Generated (''Tools: []'' @ newlines @ ''User: Weather in SF?''),
                Parsed answer_output None]\<rparr>) \<and>
   weather_run 0 [] no_options =
     Some (Inr \<lparr>text' = answer_output, toolCalls = [], toolResults = [], isComplete = True,
                conversationId = None\<rparr>,
           \<lparr>world = 1,
            trace = [Generated (''Tools: []'' @ newlines @ ''User: Weather in SF?''),
                     Parsed answer_output None]\<rparr>) \<and>
   returned (weather_run 0 weather_registry no_options) =
     Some (Inr \<lparr>text' = answer_output, toolCalls = [], toolResults = [], isComplete = True,
                conversationId = None\<rparr>) \<and>
   map_option parsed (events_of start (weather_run 0 weather_registry no_options)) =
     Some [(answer_output, None)] \<and>
   map_option length (map_option generated
     (events_of start (weather_run 0 weather_registry no_options))) = Some 1"
  using
    no_tool_call_one_round [where options = no_options and env = "example_env 0"
      and reg = "[]" and prompt = "''Weather in SF?''" and s = start
      and r = "\<lparr>text' = answer_output, toolCalls = [], toolResults = [], isComplete = True,
                conversationId = None\<rparr>"
      and s' = "\<lparr>world = 1,
            trace = [Generated (''Tools: []'' @ newlines @ ''User: Weather in SF?''),
                     Parsed answer_output None]\<rparr>"
      and p = "''Tools: []'' @ newlines @ ''User: Weather in SF?''" and tp = "[]" and ?s1.0 = start
      and st' = "\<lparr>fullPrompt = ''Tools: []'' @ newlines @ ''User: Weather in SF?'',
                  allToolCalls = [], allToolResults = [], finalText = answer_output\<rparr>"
      and ?s2.0 = "\<lparr>world = 1,
            trace = [Generated (''Tools: []'' @ newlines @ ''User: Weather in SF?''),
                     Parsed answer_output None]\<rparr>"]
    no_tool_call_one_round [where options = no_options and env = "example_env 0"
      and reg = weather_registry and prompt = "''Weather in SF?''" and s = start
      and r = "\<lparr>text' = answer_output, toolCalls = [], toolResults = [], isComplete = True,
                conversationId = None\<rparr>"
      and s' = "snd (the (weather_run 0 weather_registry no_options))"
      and p = "[]" and tp = "[]" and ?s1.0 = start
      and st' = first_state and ?s2.0 = start]
  by (simp add: run_defs)

text \<open>
  Claim C4. With \<^verbatim>\<open>autoExecute = false\<close> every run ends, and a run in which a parse finds a
  tool call returns that call as its only call, with its clean text, no results and
  \<^verbatim>\<open>isComplete = false\<close>; no executor is invoked, generation is invoked once, and the parse is
  the last event of the run.
\<close>

theorem manual_mode_returns_call:
  assumes "autoExecute options = Some False"
  shows "(\<exists>y. generateWithTools env reg prompt options s = Some y) \<and>
         (generateWithTools env reg prompt options s = Some (res, s') \<and>
          (t, Some c) \<in> set (parsed (new_events s s')) \<longrightarrow>
            res = Inr \<lparr>text' = t, toolCalls = [c], toolResults = [], isComplete = False,
                       conversationId = None\<rparr> \<and>
            executed (new_events s s') = [] \<and>
            length (generated (new_events s s')) = 1 \<and>
            last (new_events s s') = Parsed t (Some c))"
proof (intro conjI impI)
  from assms have m: "\<not> autoExecute_or_default options"
    by (simp add: autoExecute_or_default_def)
  obtain p tp s1 where b: "prepare env reg prompt options s = (Inr (p, tp), s1)"
    using prepare_returns by blast
  with tool_loop_returns_manual [OF m] show "\<exists>y. generateWithTools env reg prompt options s = Some y"
    by (simp add: generateWithTools_def)
  assume h: "generateWithTools env reg prompt options s = Some (res, s') \<and>
          (t, Some c) \<in> set (parsed (new_events s s'))"
  then have g: "generateWithTools env reg prompt options s = Some (res, s')" by simp
  from generateWithTools_run [OF g] obtain q where
    "run env reg options 0
       \<lparr>fullPrompt = q, allToolCalls = [], allToolResults = [], finalText = []\<rparr>
       (new_events s s') res" ..
  then have "res = Inr \<lparr>text' = t, toolCalls = [c], toolResults = [], isComplete = False,
                       conversationId = None\<rparr> \<and>
            executed (new_events s s') = [] \<and>
            length (generated (new_events s s')) = 1 \<and>
            last (new_events s s') = Parsed t (Some c)"
    using m h by (cases rule: run.cases) auto
  then show "res = Inr \<lparr>text' = t, toolCalls = [c], toolResults = [], isComplete = False,
                       conversationId = None\<rparr>"
    and "executed (new_events s s') = []"
    and "length (generated (new_events s s')) = 1"
    and "last (new_events s s') = Parsed t (Some c)"
    by simp_all
qed

theorem manual_mode_returns_call_witness:
  "autoExecute (no_options\<lparr>autoExecute := Some False\<rparr>) = Some False \<and>
   map_option parsed
     (events_of start (weather_run 1 weather_registry (no_options\<lparr>autoExecute := Some False\<rparr>))) =
     Some [([], Some weather_call)] \<and>
   returned (weather_run 1 weather_registry (no_options\<lparr>autoExecute := Some False\<rparr>)) =
     Some (Inr \<lparr>text' = [], toolCalls = [weather_call], toolResults = [], isComplete = False,
          conversationId = None\<rparr>) \<and>
   map_option executed
     (events_of start (weather_run 1 weather_registry (no_options\<lparr>autoExecute := Some False\<rparr>))) =
     Some [] \<and>
   map_option length (map_option generated
     (events_of start (weather_run 1 weather_registry (no_options\<lparr>autoExecute := Some False\<rparr>)))) =
     Some 1"
  using manual_mode_returns_call [where options = "no_options\<lparr>autoExecute := Some False\<rparr>"
     and env = "example_env 1" and reg = weather_registry and prompt = "''Weather in SF?''"
     and s = start
     and res = "Inr \<lparr>text' = [], toolCalls = [weather_call], toolResults = [], isComplete = False,
          conversationId = None\<rparr>"
     and s' = "snd (the (weather_run 1 weather_registry (no_options\<lparr>autoExecute := Some False\<rparr>)))"
     and t = "[]" and c = weather_call]
  by (simp add: run_defs)





text \<open>
  Claim C7. \<^verbatim>\<open>parseToolCallViaCpp\<close> always returns. When the native module is not available,
  when the native call rejects, when its result is not parseable, when the arguments of a
  found call are a string that is not parseable, or when the result is what the bridge
  builds for a native parser that reported an error, it returns the raw output unchanged
  and no call.
\<close>

theorem parse_step_never_throws:
  "(\<exists>v s'. parseToolCallViaCpp env llmOutput s = (Inr v, s')) \<and>
   (\<not> isNativeModuleAvailable env (world s) \<longrightarrow>
      parseToolCallViaCpp env llmOutput s = (Inr (llmOutput, None), s)) \<and>
   (isNativeModuleAvailable env (world s) \<and>
    native_parseToolCallFromOutput env llmOutput (world s) = (Inl e, w') \<longrightarrow>
      parseToolCallViaCpp env llmOutput s = (Inr (llmOutput, None), s\<lparr>world := w'\<rparr>)) \<and>
   (isNativeModuleAvailable env (world s) \<and>
    native_parseToolCallFromOutput env llmOutput (world s) = (Inr resultJson, w') \<and>
    JSON_parse_result env resultJson = Inl e \<longrightarrow>
      parseToolCallViaCpp env llmOutput s = (Inr (llmOutput, None), s\<lparr>world := w'\<rparr>)) \<and>
   (isNativeModuleAvailable env (world s) \<and>
    native_parseToolCallFromOutput env llmOutput (world s) = (Inr resultJson, w') \<and>
    JSON_parse_result env resultJson = Inr r \<and> hasToolCall r \<and>
    argumentsJson r = Some (JStr a) \<and> a \<noteq> [] \<and> JSON_parse env a = Inl e \<longrightarrow>
      parseToolCallViaCpp env llmOutput s = (Inr (llmOutput, None), s\<lparr>world := w'\<rparr>)) \<and>
   (isNativeModuleAvailable env (world s) \<and>
    native_parseToolCallFromOutput env llmOutput (world s) = (Inr resultJson, w') \<and>
    JSON_parse_result env resultJson =
      Inr (ToolCallingBridge_parseToolCall rac_tool_call_parse json_parse llmOutput) \<and>
    fst (rac_tool_call_parse llmOutput) = RAC_ERROR rc \<longrightarrow>
      parseToolCallViaCpp env llmOutput s = (Inr (llmOutput, None), s\<lparr>world := w'\<rparr>))"
proof -
  have "\<exists>v s'. parseToolCallViaCpp env llmOutput s = (Inr v, s')"
    using parseToolCallViaCpp_returns [of env llmOutput s] by blast
  moreover have "fst (rac_tool_call_parse llmOutput) = RAC_ERROR rc \<Longrightarrow>
     ToolCallingBridge_parseToolCall rac_tool_call_parse json_parse llmOutput =
       \<lparr>hasToolCall = False, cleanText = Some llmOutput, toolName = [],
           argumentsJson = None, callId = None\<rparr>"
    by (cases "rac_tool_call_parse llmOutput") (simp add: ToolCallingBridge_parseToolCall_def)
  ultimately show ?thesis
    by (auto simp: parseToolCallViaCpp_def parseToolCall_try_def parse_arguments_def action_defs)
qed

theorem parse_step_never_throws_witness:
  "\<not> isNativeModuleAvailable ((example_env 1)\<lparr>isNativeModuleAvailable := (\<lambda>w. False)\<rparr>) (world start) \<and>
   parseToolCallViaCpp ((example_env 1)\<lparr>isNativeModuleAvailable := (\<lambda>w. False)\<rparr>) weather_output start
     = (Inr (weather_output, None), start) \<and>
   native_parseToolCallFromOutput (example_env 1) ''<tool_call>{'' (world start)
     = (Inl (Error ''parse failed''), 0) \<and>
   parseToolCallViaCpp (example_env 1) ''<tool_call>{'' start = (Inr (''<tool_call>{'', None), start) \<and>
   JSON_parse_result
     ((example_env 1)\<lparr>native_parseToolCallFromOutput := (\<lambda>out w. (Inr ''<html>'', w))\<rparr>) ''<html>''
     = Inl (Error ''Unexpected token'') \<and>
   parseToolCallViaCpp
     ((example_env 1)\<lparr>native_parseToolCallFromOutput := (\<lambda>out w. (Inr ''<html>'', w))\<rparr>)
     weather_output start = (Inr (weather_output, None), start) \<and>
   JSON_parse ((example_env 1)\<lparr>JSON_parse_result := (\<lambda>j. Inr broken_arguments)\<rparr>) ''{location: SF''
     = Inl (Error ''Unexpected token'') \<and>
   parseToolCallViaCpp ((example_env 1)\<lparr>JSON_parse_result := (\<lambda>j. Inr broken_arguments)\<rparr>)
     weather_output start = (Inr (weather_output, None), start) \<and>
   fst (failing_parser weather_output) = RAC_ERROR 1 \<and>
   parseToolCallViaCpp
     ((example_env 1)\<lparr>JSON_parse_result :=
        (\<lambda>j. Inr (ToolCallingBridge_parseToolCall failing_parser (\<lambda>a. None) weather_output))\<rparr>)
     weather_output start = (Inr (weather_output, None), start)"
  using
    parse_step_never_throws [of "(example_env 1)\<lparr>isNativeModuleAvailable := (\<lambda>w. False)\<rparr>"
      weather_output start]
    parse_step_never_throws [of "example_env 1" "''<tool_call>{''" start "Error ''parse failed''" 0]
    parse_step_never_throws [of
      "(example_env 1)\<lparr>native_parseToolCallFromOutput := (\<lambda>out w. (Inr ''<html>'', w))\<rparr>"
      weather_output start "Error ''Unexpected token''" 0 "''<html>''"]
    parse_step_never_throws [of "(example_env 1)\<lparr>JSON_parse_result := (\<lambda>j. Inr broken_arguments)\<rparr>"
      weather_output start "Error ''Unexpected token''" 0 weather_parsed_json broken_arguments
      "''{location: SF''"]
    parse_step_never_throws [of
      "(example_env 1)\<lparr>JSON_parse_result :=
        (\<lambda>j. Inr (ToolCallingBridge_parseToolCall failing_parser (\<lambda>a. None) weather_output))\<rparr>"
      weather_output start "Error ''Unexpected token''" 0 weather_parsed_json broken_arguments
      "''{location: SF''" failing_parser "\<lambda>a. None" 1]
  by (simp add: run_defs broken_arguments_def failing_parser_def)

text \<open>
  Claim C8. When the list of tools to format is empty (an empty list given, or none given
  and nothing registered), \<^verbatim>\<open>formatToolsForPrompt\<close> and \<^verbatim>\<open>formatToolsForPromptAsync\<close> return the
  empty string.
\<close>

theorem empty_tool_list_formats_to_empty:
  "toolsToFormat reg ts = [] \<Longrightarrow>
   formatToolsForPrompt env reg ts fmt = [] \<and>
   formatToolsForPromptAsync env reg ts fmt s = (Inr [], s)"
  by (simp add: formatToolsForPrompt_def formatToolsForPromptAsync_def ret_def)

theorem empty_tool_list_formats_to_empty_witness:
  "toolsToFormat weather_registry (Some []) = [] \<and>
   formatToolsForPrompt (example_env 1) weather_registry (Some []) (Some ''lfm2'') = [] \<and>
   formatToolsForPromptAsync (example_env 1) weather_registry (Some []) (Some ''lfm2'') start
     = (Inr [], start)"
  using empty_tool_list_formats_to_empty [of weather_registry "Some []" "example_env 1" "Some ''lfm2''" start]
  by (simp add: toolsToFormat_def)

text \<open>
  Claim C9. In every result of \<^verbatim>\<open>generateWithTools\<close> with \<^verbatim>\<open>isComplete = true\<close>, the results are
  as many as the calls, the result at each index has the tool name and the call id of the
  call at that index, and the executors invoked during the run are those of the recorded
  calls with a registered tool, once each and in order.
\<close>

theorem complete_results_match_calls:
  assumes "generateWithTools env reg prompt options s = Some (Inr r, s')"
    and "isComplete r"
  shows "length (toolResults r) = length (toolCalls r) \<and>
         (\<forall>i < length (toolCalls r).
            ToolResult.toolName (toolResults r ! i) = ToolCall.toolName (toolCalls r ! i) \<and>
            ToolResult.callId (toolResults r ! i) = ToolCall.callId (toolCalls r ! i)) \<and>
         executed (new_events s s') =
           map (\<lambda>c. (ToolCall.toolName c, arguments c))
             (filter (\<lambda>c. map_of reg (ToolCall.toolName c) \<noteq> None) (toolCalls r))"
proof -
  from generateWithTools_run [OF assms(1)] obtain p where
    "run env reg options 0
       \<lparr>fullPrompt = p, allToolCalls = [], allToolResults = [], finalText = []\<rparr>
       (new_events s s') (Inr r)" ..
  from run_results_match [OF this refl assms(2)]
  have l: "list_all2 (\<lambda>c x. ToolResult.toolName x = ToolCall.toolName c \<and>
                       ToolResult.callId x = ToolCall.callId c) (toolCalls r) (toolResults r)"
    and e: "executed (new_events s s') =
           map (\<lambda>c. (ToolCall.toolName c, arguments c))
             (filter (\<lambda>c. map_of reg (ToolCall.toolName c) \<noteq> None) (toolCalls r))"
    by auto
  from l e show ?thesis
    by (auto simp: list_all2_conv_all_nth)
qed

theorem complete_results_match_calls_witness:
  "returned (weather_run 1 weather_registry (no_options\<lparr>maxToolCalls := Some (Finite 3)\<rparr>)) =
     Some (Inr \<lparr>text' = answer_output, toolCalls = [weather_call], toolResults = [weather_result],
          isComplete = True, conversationId = None\<rparr>) \<and>
   ToolResult.toolName weather_result = ToolCall.toolName weather_call \<and>
   ToolResult.callId weather_result = ToolCall.callId weather_call \<and>
   map_option length (map_option generated
     (events_of start (weather_run 1 weather_registry (no_options\<lparr>maxToolCalls := Some (Finite 3)\<rparr>)))) =
     Some 2 \<and>
   map_option executed
     (events_of start (weather_run 1 weather_registry (no_options\<lparr>maxToolCalls := Some (Finite 3)\<rparr>))) =
     Some [(''get_weather'', JObj [(''location'', JStr ''SF'')])]"
  using complete_results_match_calls [where env = "example_env 1" and reg = weather_registry
     and prompt = "''Weather in SF?''" and options = "no_options\<lparr>maxToolCalls := Some (Finite 3)\<rparr>"
     and s = start
     and r = "\<lparr>text' = answer_output, toolCalls = [weather_call], toolResults = [weather_result],
          isComplete = True, conversationId = None\<rparr>"
     and s' = "snd (the (weather_run 1 weather_registry (no_options\<lparr>maxToolCalls := Some (Finite 3)\<rparr>)))"]
  by (simp add: run_defs)

text \<open>
  Claim C10, as amended. When \<^verbatim>\<open>JSON.stringify\<close> returns for the result of a successful
  \<^verbatim>\<open>toolResult\<close> (a failed one is not serialised), \<^verbatim>\<open>continueWithToolResult\<close> is
  \<^verbatim>\<open>generateWithTools\<close> on the continued prompt with \<^verbatim>\<open>maxToolCalls\<close> one less than the caller's
  value (4 when none is given); with a value of at most 1 it invokes nothing and returns the
  empty text, no calls, no results and \<^verbatim>\<open>isComplete = true\<close>. When \<^verbatim>\<open>JSON.stringify\<close> throws,
  \<^verbatim>\<open>continueWithToolResult\<close> rejects with what was thrown and resumes nothing. For a finite
  value \<open>b\<close> of at most \<open>2 ^ 53\<close>, a run that ends has invoked generation at most \<open>\<lceil>b - 1\<rceil>\<close>
  times.
\<close>

theorem continueWithToolResult_one_less:
  "(toolResult_json env tr = Inr j \<longrightarrow>
      continueWithToolResult env reg previousPrompt c tr options =
      generateWithTools env reg (continuedPrompt previousPrompt c j)
        (options\<lparr>maxToolCalls := Some (minus_one (maxToolCalls_or_default options))\<rparr>)) \<and>
   (maxToolCalls options = None \<longrightarrow>
      maxToolCalls_or_default
        (options\<lparr>maxToolCalls := Some (minus_one (maxToolCalls_or_default options))\<rparr>) = Finite 4) \<and>
   (toolResult_json env tr = Inr j \<and> js_less_eq (maxToolCalls_or_default options) (Finite 1) \<longrightarrow>
      (\<exists>s'. continueWithToolResult env reg previousPrompt c tr options s =
               Some (Inr \<lparr>text' = [], toolCalls = [], toolResults = [], isComplete = True,
                          conversationId = None\<rparr>, s') \<and>
            new_events s s' = [])) \<and>
   (toolResult_json env tr = Inl e \<longrightarrow>
      continueWithToolResult env reg previousPrompt c tr options s = Some (Inl e, s)) \<and>
   (maxToolCalls_or_default options = Finite b \<and> b \<le> 2 ^ 53 \<and>
    continueWithToolResult env reg previousPrompt c tr options s = Some (res, s'') \<longrightarrow>
      length (generated (new_events s s'')) \<le> nat \<lceil>b - 1\<rceil>)"
proof (intro conjI impI)
  let ?o = "options\<lparr>maxToolCalls := Some (minus_one (maxToolCalls_or_default options))\<rparr>"
  have m: "maxToolCalls_or_default ?o = minus_one (maxToolCalls_or_default options)"
    by (simp add: maxToolCalls_or_default_def)
  show "continueWithToolResult env reg previousPrompt c tr options =
      generateWithTools env reg (continuedPrompt previousPrompt c j) ?o"
    if "toolResult_json env tr = Inr j"
    using that by (intro ext) (simp add: continueWithToolResult_def)
  show "maxToolCalls_or_default ?o = Finite 4" if "maxToolCalls options = None"
    using that by (simp add: maxToolCalls_or_default_def)
  show "\<exists>s'. continueWithToolResult env reg previousPrompt c tr options s =
               Some (Inr \<lparr>text' = [], toolCalls = [], toolResults = [], isComplete = True,
                          conversationId = None\<rparr>, s') \<and>
            new_events s s' = []"
    if h: "toolResult_json env tr = Inr j \<and> js_less_eq (maxToolCalls_or_default options) (Finite 1)"
  proof -
    obtain p tp s1 where b: "prepare env reg (continuedPrompt previousPrompt c j) ?o s = (Inr (p, tp), s1)"
      and t1: "trace s1 = trace s"
      using prepare_returns by blast
    from h at_most_one m
    have n: "\<not> js_less (Finite (of_nat 0)) (maxToolCalls_or_default ?o)" by simp
    have "tool_loop env reg (continuedPrompt previousPrompt c j) ?o tp 0
          \<lparr>fullPrompt = p, allToolCalls = [], allToolResults = [], finalText = []\<rparr> s1 =
        Some (Inr (completed
          \<lparr>fullPrompt = p, allToolCalls = [], allToolResults = [], finalText = []\<rparr>), s1)"
      by (rule tool_loop_done [OF n])
    with b h have "continueWithToolResult env reg previousPrompt c tr options s =
        Some (Inr \<lparr>text' = [], toolCalls = [], toolResults = [], isComplete = True,
                           conversationId = None\<rparr>, s1)"
      by (simp add: continueWithToolResult_def generateWithTools_def completed_def)
    moreover from t1 have "new_events s s1 = []"
      by (simp add: new_events_def)
    ultimately show ?thesis by blast
  qed
  show "continueWithToolResult env reg previousPrompt c tr options s = Some (Inl e, s)"
    if "toolResult_json env tr = Inl e"
    using that by (simp add: continueWithToolResult_def)
  show "length (generated (new_events s s'')) \<le> nat \<lceil>b - 1\<rceil>"
    if h: "maxToolCalls_or_default options = Finite b \<and> b \<le> 2 ^ 53 \<and>
      continueWithToolResult env reg previousPrompt c tr options s = Some (res, s'')"
  proof (cases "toolResult_json env tr")
    case (Inl x)
    with h show ?thesis by (simp add: continueWithToolResult_def new_events_def)
  next
    case (Inr x)
    from h have "continueWithToolResult env reg previousPrompt c tr options s = Some (res, s'')"
      by simp
    with Inr have g: "generateWithTools env reg (continuedPrompt previousPrompt c x) ?o s = Some (res, s'')"
      by (simp add: continueWithToolResult_def)
    from generateWithTools_run [OF g] obtain q where
      r: "run env reg ?o 0
         \<lparr>fullPrompt = q, allToolCalls = [], allToolResults = [], finalText = []\<rparr>
         (new_events s s'') res" ..
    from h m have "maxToolCalls_or_default ?o = Finite (b - 1)" "b - 1 \<le> 2 ^ 53" by simp_all
    from run_generations [OF r this] show ?thesis by simp
  qed
qed

theorem continueWithToolResult_one_less_witness:
  "toolResult_json (example_env 0) weather_result =
     Inr (example_stringify (JObj [(''temperature'', JNum 18)])) \<and>
   maxToolCalls no_options = None \<and>
   maxToolCalls_or_default
     (no_options\<lparr>maxToolCalls := Some (minus_one (maxToolCalls_or_default no_options))\<rparr>) =
     Finite 4 \<and>
   js_less_eq (maxToolCalls_or_default (no_options\<lparr>maxToolCalls := Some (Finite 1)\<rparr>)) (Finite 1) \<and>
   continueWithToolResult (example_env 5) weather_registry ''Weather in SF?'' weather_call
     weather_result (no_options\<lparr>maxToolCalls := Some (Finite 1)\<rparr>) start =
     Some (Inr \<lparr>text' = [], toolCalls = [], toolResults = [], isComplete = True,
                conversationId = None\<rparr>, start) \<and>
   new_events start start = [] \<and>
   toolResult_json (example_env 0) bigint_result =
     Inl (Error ''Do not know how to serialize a BigInt'') \<and>
   continueWithToolResult (example_env 0) weather_registry ''Weather in SF?'' weather_call
     bigint_result no_options start =
     Some (Inl (Error ''Do not know how to serialize a BigInt''), start) \<and>
   maxToolCalls_or_default (no_options\<lparr>maxToolCalls := Some (Finite 2)\<rparr>) = Finite 2 \<and>
   (2 :: rat) \<le> 2 ^ 53 \<and>
   returned (continueWithToolResult (example_env 5) weather_registry ''Weather in SF?'' weather_call
     weather_result (no_options\<lparr>maxToolCalls := Some (Finite 2)\<rparr>) start) =
     Some (Inr \<lparr>text' = [], toolCalls = [weather_call], toolResults = [weather_result],
                isComplete = True, conversationId = None\<rparr>) \<and>
   map_option length (map_option generated (events_of start
     (continueWithToolResult (example_env 5) weather_registry ''Weather in SF?'' weather_call
        weather_result (no_options\<lparr>maxToolCalls := Some (Finite 2)\<rparr>) start))) =
     Some (nat \<lceil>2 - 1 :: rat\<rceil>)"
  using
    continueWithToolResult_one_less [where env = "example_env 0" and tr = weather_result
      and j = "example_stringify (JObj [(''temperature'', JNum 18)])"
      and reg = weather_registry and previousPrompt = "''Weather in SF?''" and c = weather_call
      and options = no_options and s = start
      and e = "Error ''Do not know how to serialize a BigInt''" and b = 5
      and res = "Inl (Error [])" and s'' = start]
    continueWithToolResult_one_less [where env = "example_env 5" and tr = weather_result
      and j = "example_stringify (JObj [(''temperature'', JNum 18)])"
      and reg = weather_registry and previousPrompt = "''Weather in SF?''" and c = weather_call
      and options = "no_options\<lparr>maxToolCalls := Some (Finite 1)\<rparr>" and s = start
      and e = "Error ''Do not know how to serialize a BigInt''" and b = 1
      and res = "Inl (Error [])" and s'' = start]
    continueWithToolResult_one_less [where env = "example_env 0" and tr = bigint_result
      and j = "[]"
      and reg = weather_registry and previousPrompt = "''Weather in SF?''" and c = weather_call
      and options = no_options and s = start
      and e = "Error ''Do not know how to serialize a BigInt''" and b = 5
      and res = "Inl (Error [])" and s'' = start]
    continueWithToolResult_one_less [where env = "example_env 5" and tr = weather_result
      and j = "[]"
      and reg = weather_registry and previousPrompt = "''Weather in SF?''" and c = weather_call
      and options = "no_options\<lparr>maxToolCalls := Some (Finite 2)\<rparr>" and s = start
      and e = "Error ''Do not know how to serialize a BigInt''" and b = 2
      and res = "fst (the (continueWithToolResult (example_env 5) weather_registry ''Weather in SF?''
          weather_call weather_result (no_options\<lparr>maxToolCalls := Some (Finite 2)\<rparr>) start))"
      and s'' = "snd (the (continueWithToolResult (example_env 5) weather_registry ''Weather in SF?''
          weather_call weather_result (no_options\<lparr>maxToolCalls := Some (Finite 2)\<rparr>) start))"]
  by (simp add: run_defs)

text \<open>
  Claim C10 as stated (for every invocation) fails for a tool result that cannot be
  serialised: resuming with \<^verbatim>\<open>maxToolCalls = 1\<close> and a successful result that holds a \<^verbatim>\<open>BigInt\<close>
  throws out of \<^verbatim>\<open>JSON.stringify\<close> instead of returning the empty complete result.
\<close>

theorem continueWithToolResult_counterexample:
  "success bigint_result \<and>
   js_less_eq (maxToolCalls_or_default (no_options\<lparr>maxToolCalls := Some (Finite 1)\<rparr>)) (Finite 1) \<and>
   continueWithToolResult (example_env 0) weather_registry ''Weather in SF?'' weather_call
     bigint_result (no_options\<lparr>maxToolCalls := Some (Finite 1)\<rparr>) start =
     Some (Inl (Error ''Do not know how to serialize a BigInt''), start)"
  by (simp add: run_defs)

end
